theory Spec2Isabelle
  imports Complex_Main "HOL-Library.Char_ord" "HOL-Library.List_Lexorder"
begin

section \<open>Strings\<close>

text \<open>
  A JavaScript string is modelled as a \<^typ>\<open>string\<close> whose characters are code units
  below 256. \<open>String.prototype.trim\<close> and the validator's \<open>trim()\<close> sanitizer strip the
  same white space from both ends; below 256 that is TAB, LF, VT, FF, CR, SPACE and NBSP.
\<close>

definition isWhiteSpace :: "char \<Rightarrow> bool" where
  "isWhiteSpace c = (c \<in> set [CHR 0x09, CHR 0x0A, CHR 0x0B, CHR 0x0C, CHR 0x0D, CHR 0x20, CHR 0xA0])"

definition trim :: "string \<Rightarrow> string" where
  "trim s = rev (dropWhile isWhiteSpace (rev (dropWhile isWhiteSpace s)))"

definition isHexDigit :: "char \<Rightarrow> bool" where
  "isHexDigit c = (c \<in> set ''0123456789abcdefABCDEF'')"

text \<open>The pattern \<^verbatim>\<open>/^#([A-Fa-f0-9]{6}|[A-Fa-f0-9]{3})$/\<close> of the schema and of both validation chains.\<close>

definition isHexColor :: "string \<Rightarrow> bool" where
  "isHexColor s =
     (case s of
        [] \<Rightarrow> False
      | c # hs \<Rightarrow> c = CHR ''#'' \<and> (length hs = 6 \<or> length hs = 3) \<and> list_all isHexDigit hs)"

text \<open>The enumeration \<^verbatim>\<open>['personal', 'work', 'creative', 'study']\<close>.\<close>

definition categoryEnum :: "string list" where
  "categoryEnum = [''personal'', ''work'', ''creative'', ''study'']"

section \<open>Responses\<close>

text \<open>
  A handler answers either with \<^verbatim>\<open>res.status(s).json({error, message})\<close> or with
  \<^verbatim>\<open>res.json({message, data})\<close>. The validation middleware answers before the handler
  runs when a chain reports a problem.
\<close>

datatype failure =
    ValidationError "string list"
  | ErrorResponse nat string string

datatype 'a reply = Reply (status: nat) (message: string) (data: 'a)

text \<open>
  Modelled from the spec: \<^verbatim>\<open>handleValidationErrors\<close> (middleware/validation.js is not
  among the sources). With no reported problem the handler runs (\<open>None\<close>); otherwise the
  request ends with a \<open>ValidationError\<close> carrying the per-field problems.
\<close>

definition handleValidationErrors :: "string list \<Rightarrow> failure option" where
  "handleValidationErrors errs = (if errs = [] then None else Some (ValidationError errs))"

section \<open>The Note model (models/Note.js)\<close>

record Note =
  nid :: nat
  title :: string
  content :: string
  category :: string
  tags :: "string list"
  isPinned :: bool
  isArchived :: bool
  color :: string
  userId :: nat
  createdAt :: nat
  updatedAt :: nat

text \<open>
  The collection is the list of its documents in natural order; \<open>nid\<close> is the document's
  \<^verbatim>\<open>_id\<close>, user and note identifiers are opaque numbers, dates are milliseconds.
\<close>

type_synonym collection = "Note list"

text \<open>\<^verbatim>\<open>Note.findOne({ _id: id, userId: user })\<close>: the first document satisfying both conditions.\<close>

definition findOne :: "nat \<Rightarrow> nat \<Rightarrow> collection \<Rightarrow> Note option" where
  "findOne i u db = find (\<lambda>n. nid n = i \<and> userId n = u) db"

text \<open>The \<^verbatim>\<open>pre('save')\<close> hook.\<close>

definition preSave :: "nat \<Rightarrow> Note \<Rightarrow> Note" where
  "preSave now n = n\<lparr>updatedAt := now\<rparr>"

text \<open>
  The schema's validators. The \<^verbatim>\<open>match\<close> validator of \<open>color\<close> lets the empty string
  pass. A failing validator makes \<^verbatim>\<open>save()\<close> throw.
\<close>

definition validatePath :: "Note \<Rightarrow> string \<Rightarrow> bool" where
  "validatePath n p =
     (if p = ''title'' then 1 \<le> length (title n) \<and> length (title n) \<le> 200
      else if p = ''content'' then 1 \<le> length (content n) \<and> length (content n) \<le> 10000
      else if p = ''category'' then List.member categoryEnum (category n)
      else if p = ''tags'' then list_all (\<lambda>t. length t \<le> 30) (tags n)
      else if p = ''color'' then color n = [] \<or> isHexColor (color n)
      else True)"

definition schemaPaths :: "string list" where
  "schemaPaths = [''title'', ''content'', ''category'', ''tags'', ''isPinned'', ''isArchived'',
     ''color'', ''userId'', ''createdAt'', ''updatedAt'']"

text \<open>
  \<^verbatim>\<open>save()\<close> validates every path of the document, those a handler assigned and those
  loaded from the collection alike.
\<close>

definition schemaValid :: "Note \<Rightarrow> bool" where
  "schemaValid n = list_all (validatePath n) schemaPaths"

text \<open>
  \<^verbatim>\<open>note.save()\<close> on a document read from the collection: the hook stamps
  \<open>updatedAt\<close>, the document is validated, and the stored document with the same
  \<^verbatim>\<open>_id\<close> is replaced. \<open>None\<close> is the thrown validation error, after which nothing
  is written.
\<close>

definition save :: "nat \<Rightarrow> Note \<Rightarrow> collection \<Rightarrow> (collection \<times> Note) option" where
  "save now n db =
     (let n' = preSave now n in
      if schemaValid n'
      then Some (map (\<lambda>m. if nid m = nid n' then n' else m) db, n')
      else None)"

section \<open>Per-note routes (routes/notes.js)\<close>

text \<open>
  Each route is given the authenticated user \<open>u\<close> (\<^verbatim>\<open>req.user._id\<close>), the note identifier
  \<open>i\<close> (\<^verbatim>\<open>req.params.id\<close>, a well-formed identifier) and the collection, and returns the
  collection afterwards together with the response.
\<close>

definition get_note :: "nat \<Rightarrow> nat \<Rightarrow> collection \<Rightarrow> failure + Note reply" where
  "get_note u i db =
     (case findOne i u db of
        None \<Rightarrow> Inl (ErrorResponse 404 ''Note not found''
          ''The requested note does not exist or you do not have permission to view it.'')
      | Some n \<Rightarrow> Inr (Reply 200 ''Note retrieved successfully'' n))"

text \<open>\<^verbatim>\<open>Note.findOneAndDelete({ _id: id, userId: user })\<close>: removes the first such document.\<close>

definition findOneAndDelete :: "nat \<Rightarrow> nat \<Rightarrow> collection \<Rightarrow> collection \<times> Note option" where
  "findOneAndDelete i u db =
     (case findOne i u db of
        None \<Rightarrow> (db, None)
      | Some n \<Rightarrow> (remove1 n db, Some n))"

definition delete_note :: "nat \<Rightarrow> nat \<Rightarrow> collection \<Rightarrow> collection \<times> (failure + nat reply)" where
  "delete_note u i db =
     (case findOneAndDelete i u db of
        (db', None) \<Rightarrow> (db', Inl (ErrorResponse 404 ''Note not found''
          ''The requested note does not exist or you do not have permission to delete it.''))
      | (db', Some n) \<Rightarrow> (db', Inr (Reply 200 ''Note deleted successfully'' (nid n))))"

definition pin_note :: "nat \<Rightarrow> nat \<Rightarrow> nat \<Rightarrow> collection \<Rightarrow> collection \<times> (failure + (nat \<times> bool) reply)" where
  "pin_note u i now db =
     (case findOne i u db of
        None \<Rightarrow> (db, Inl (ErrorResponse 404 ''Note not found''
          ''The requested note does not exist or you do not have permission to modify it.''))
      | Some n \<Rightarrow>
          (case save now (n\<lparr>isPinned := \<not> isPinned n\<rparr>) db of
             None \<Rightarrow> (db, Inl (ErrorResponse 500 ''Failed to pin/unpin note''
               ''Unable to modify note. Please try again.''))
           | Some (db', n') \<Rightarrow>
               (db', Inr (Reply 200
                  (''Note '' @ (if isPinned n' then ''pinned'' else ''unpinned'') @ '' successfully'')
                  (nid n', isPinned n')))))"

definition archive_note :: "nat \<Rightarrow> nat \<Rightarrow> nat \<Rightarrow> collection \<Rightarrow> collection \<times> (failure + (nat \<times> bool) reply)" where
  "archive_note u i now db =
     (case findOne i u db of
        None \<Rightarrow> (db, Inl (ErrorResponse 404 ''Note not found''
          ''The requested note does not exist or you do not have permission to modify it.''))
      | Some n \<Rightarrow>
          (case save now (n\<lparr>isArchived := \<not> isArchived n\<rparr>) db of
             None \<Rightarrow> (db, Inl (ErrorResponse 500 ''Failed to archive/unarchive note''
               ''Unable to modify note. Please try again.''))
           | Some (db', n') \<Rightarrow>
               (db', Inr (Reply 200
                  (''Note '' @ (if isArchived n' then ''archived'' else ''unarchived'') @ '' successfully'')
                  (nid n', isArchived n')))))"

section \<open>Request bodies and their validation chains (routes/notes.js)\<close>

text \<open>
  The JSON body of a create or update request; \<open>None\<close> is an absent (\<^verbatim>\<open>undefined\<close>)
  field. The create handler reads \<open>title\<close>, \<open>content\<close>, \<open>category\<close>, \<open>tags\<close> and
  \<open>color\<close> only.
\<close>

record noteBody =
  b_title :: "string option"
  b_content :: "string option"
  b_category :: "string option"
  b_tags :: "string list option"
  b_isPinned :: "bool option"
  b_isArchived :: "bool option"
  b_color :: "string option"

definition check :: "bool \<Rightarrow> string \<Rightarrow> string list" where
  "check ok msg = (if ok then [] else [msg])"

text \<open>A chain marked \<^verbatim>\<open>optional()\<close> is skipped for an absent field.\<close>

definition optional :: "'a option \<Rightarrow> ('a \<Rightarrow> string list) \<Rightarrow> string list" where
  "optional v chain = (case v of None \<Rightarrow> [] | Some x \<Rightarrow> chain x)"

text \<open>A chain that is not optional sees an absent field as the empty string.\<close>

definition required :: "string option \<Rightarrow> (string \<Rightarrow> string list) \<Rightarrow> string list" where
  "required v chain = (case v of None \<Rightarrow> chain [] | Some x \<Rightarrow> chain x)"

definition titleChain :: "string \<Rightarrow> string list" where
  "titleChain t = check (1 \<le> length (trim t) \<and> length (trim t) \<le> 200)
     ''Title must be between 1 and 200 characters''"

definition contentChain :: "string \<Rightarrow> string list" where
  "contentChain c = check (1 \<le> length (trim c) \<and> length (trim c) \<le> 10000)
     ''Content must be between 1 and 10,000 characters''"

definition categoryChain :: "string \<Rightarrow> string list" where
  "categoryChain c = check (List.member categoryEnum c)
     ''Category must be one of: personal, work, creative, study''"

text \<open>The custom validator of \<open>tags\<close> throws when the array has more than 10 elements.\<close>

definition tagsChain :: "string list \<Rightarrow> string list" where
  "tagsChain ts = check (\<not> 10 < length ts) ''Cannot have more than 10 tags''"

text \<open>The chain of \<^verbatim>\<open>tags.*\<close> runs on every element of the array.\<close>

definition tagChain :: "string list \<Rightarrow> string list" where
  "tagChain ts = concat (map (\<lambda>t. check (length (trim t) \<le> 30)
     ''Each tag must be 30 characters or less'') ts)"

definition colorChain :: "string \<Rightarrow> string list" where
  "colorChain c = check (isHexColor c) ''Color must be a valid hex color code''"

definition createNoteValidation :: "noteBody \<Rightarrow> string list" where
  "createNoteValidation b =
     required (b_title b) titleChain @
     required (b_content b) contentChain @
     required (b_category b) categoryChain @
     optional (b_tags b) tagsChain @
     optional (b_tags b) tagChain @
     optional (b_color b) colorChain"

text \<open>
  The \<^verbatim>\<open>isBoolean()\<close> chains of \<open>isPinned\<close> and \<open>isArchived\<close> accept every JSON boolean,
  which is what the body's type admits for them.
\<close>

definition updateNoteValidation :: "noteBody \<Rightarrow> string list" where
  "updateNoteValidation b =
     optional (b_title b) titleChain @
     optional (b_content b) contentChain @
     optional (b_category b) categoryChain @
     optional (b_tags b) tagsChain @
     optional (b_tags b) tagChain @
     optional (b_color b) colorChain"

text \<open>
  The \<^verbatim>\<open>trim()\<close> sanitizers of the chains rewrite the fields of \<^verbatim>\<open>req.body\<close> they ran on
  before the handler reads them.
\<close>

definition sanitizeBody :: "noteBody \<Rightarrow> noteBody" where
  "sanitizeBody b = b\<lparr>b_title := map_option trim (b_title b),
                      b_content := map_option trim (b_content b),
                      b_tags := map_option (map trim) (b_tags b)\<rparr>"

section \<open>Creating and updating notes\<close>

text \<open>
  Assignments to a document go through the schema's setters: \<^verbatim>\<open>trim: true\<close> on
  \<open>title\<close>, \<open>content\<close> and every element of \<open>tags\<close>.
\<close>

definition setTitle :: "string \<Rightarrow> Note \<Rightarrow> Note" where
  "setTitle v n = n\<lparr>title := trim v\<rparr>"

definition setContent :: "string \<Rightarrow> Note \<Rightarrow> Note" where
  "setContent v n = n\<lparr>content := trim v\<rparr>"

definition setTags :: "string list \<Rightarrow> Note \<Rightarrow> Note" where
  "setTags vs n = n\<lparr>tags := map trim vs\<rparr>"

text \<open>\<^verbatim>\<open>tags.map(tag => tag.trim()).filter(tag => tag)\<close>: a string is truthy when it is not empty.\<close>

definition cleanTags :: "string list \<Rightarrow> string list" where
  "cleanTags ts = filter (\<lambda>t. t \<noteq> []) (map trim ts)"

text \<open>\<^verbatim>\<open>if (x !== undefined) note.x = ...\<close>\<close>

definition assign :: "'a option \<Rightarrow> ('a \<Rightarrow> Note \<Rightarrow> Note) \<Rightarrow> Note \<Rightarrow> Note" where
  "assign v f n = (case v of None \<Rightarrow> n | Some x \<Rightarrow> f x n)"

definition applyBody :: "noteBody \<Rightarrow> Note \<Rightarrow> Note" where
  "applyBody b n =
     assign (b_color b) (\<lambda>v m. m\<lparr>color := v\<rparr>)
      (assign (b_isArchived b) (\<lambda>v m. m\<lparr>isArchived := v\<rparr>)
       (assign (b_isPinned b) (\<lambda>v m. m\<lparr>isPinned := v\<rparr>)
        (assign (b_tags b) (\<lambda>v. setTags (cleanTags v))
         (assign (b_category b) (\<lambda>v m. m\<lparr>category := v\<rparr>)
          (assign (b_content b) (\<lambda>v. setContent (trim v))
           (assign (b_title b) (\<lambda>v. setTitle (trim v)) n))))))"

text \<open>The handler of \<^verbatim>\<open>PUT /:id\<close>, run on the sanitized body.\<close>

definition update_handler :: "nat \<Rightarrow> nat \<Rightarrow> noteBody \<Rightarrow> nat \<Rightarrow> collection \<Rightarrow>
    collection \<times> (failure + Note reply)" where
  "update_handler u i b now db =
     (case findOne i u db of
        None \<Rightarrow> (db, Inl (ErrorResponse 404 ''Note not found''
          ''The requested note does not exist or you do not have permission to update it.''))
      | Some n \<Rightarrow>
          (case save now (applyBody b n) db of
             None \<Rightarrow> (db, Inl (ErrorResponse 500 ''Failed to update note''
               ''Unable to update note. Please try again.''))
           | Some (db', n') \<Rightarrow> (db', Inr (Reply 200 ''Note updated successfully'' n'))))"

definition update_note :: "nat \<Rightarrow> nat \<Rightarrow> noteBody \<Rightarrow> nat \<Rightarrow> collection \<Rightarrow>
    collection \<times> (failure + Note reply)" where
  "update_note u i b now db =
     (case handleValidationErrors (updateNoteValidation b) of
        Some f \<Rightarrow> (db, Inl f)
      | None \<Rightarrow> update_handler u i (sanitizeBody b) now db)"

text \<open>
  \<^verbatim>\<open>new Note({...})\<close> with the schema's defaults, for the identifier \<open>i\<close> the driver
  generates; \<open>None\<close> is the \<^verbatim>\<open>TypeError\<close> of \<^verbatim>\<open>undefined.trim()\<close>.
\<close>

definition newNote :: "nat \<Rightarrow> nat \<Rightarrow> nat \<Rightarrow> noteBody \<Rightarrow> Note option" where
  "newNote u i now b =
     (case (b_title b, b_content b) of
        (Some t, Some c) \<Rightarrow>
          Some (setTags (case b_tags b of None \<Rightarrow> [] | Some ts \<Rightarrow> cleanTags ts)
            (setContent (trim c)
              (setTitle (trim t)
                \<lparr>nid = i, title = [], content = [],
                 category = (case b_category b of None \<Rightarrow> ''personal'' | Some v \<Rightarrow> v),
                 tags = [], isPinned = False, isArchived = False,
                 color = (case b_color b of None \<Rightarrow> ''#ffffff'' | Some v \<Rightarrow> v),
                 userId = u, createdAt = now, updatedAt = now\<rparr>)))
      | _ \<Rightarrow> None)"

text \<open>\<^verbatim>\<open>note.save()\<close> on a new document: hook, validation, insertion.\<close>

definition saveNew :: "nat \<Rightarrow> Note \<Rightarrow> collection \<Rightarrow> (collection \<times> Note) option" where
  "saveNew now n db =
     (let n' = preSave now n in
      if schemaValid n' then Some (db @ [n'], n') else None)"

definition create_handler :: "nat \<Rightarrow> nat \<Rightarrow> noteBody \<Rightarrow> nat \<Rightarrow> collection \<Rightarrow>
    collection \<times> (failure + Note reply)" where
  "create_handler u i b now db =
     (case newNote u i now b of
        None \<Rightarrow> (db, Inl (ErrorResponse 500 ''Failed to create note''
          ''Unable to create note. Please try again.''))
      | Some n \<Rightarrow>
          (case saveNew now n db of
             None \<Rightarrow> (db, Inl (ErrorResponse 500 ''Failed to create note''
               ''Unable to create note. Please try again.''))
           | Some (db', n') \<Rightarrow> (db', Inr (Reply 201 ''Note created successfully'' n'))))"

definition create_note :: "nat \<Rightarrow> nat \<Rightarrow> noteBody \<Rightarrow> nat \<Rightarrow> collection \<Rightarrow>
    collection \<times> (failure + Note reply)" where
  "create_note u i b now db =
     (case handleValidationErrors (createNoteValidation b) of
        Some f \<Rightarrow> (db, Inl f)
      | None \<Rightarrow> create_handler u i (sanitizeBody b) now db)"

section \<open>Listing notes\<close>

text \<open>
  The text index covers \<open>title\<close>, \<open>content\<close> and \<open>tags\<close> with the weights 10, 5 and 8.
  How the store tokenises and stems is left open: \<open>hits s t\<close> is the number of matches of the
  search string \<open>s\<close> in the text \<open>t\<close>. A document satisfies \<^verbatim>\<open>$text\<close> when an indexed field
  has a match; for its score the store multiplies the matches of each field by the field's
  weight and adds them up.
\<close>

type_synonym matcher = "string \<Rightarrow> string \<Rightarrow> nat"

definition textMatch :: "matcher \<Rightarrow> string \<Rightarrow> Note \<Rightarrow> bool" where
  "textMatch hits s n =
     (0 < hits s (title n) \<or> 0 < hits s (content n) \<or> list_ex (\<lambda>t. 0 < hits s t) (tags n))"


text \<open>A filter document over the keys the code uses; \<open>None\<close> is a key that is not set.\<close>

record noteQuery =
  q_userId :: nat
  q_isArchived :: bool
  q_category :: "string option"
  q_isPinned :: "bool option"
  q_text :: "string option"

definition matchesQuery :: "matcher \<Rightarrow> noteQuery \<Rightarrow> Note \<Rightarrow> bool" where
  "matchesQuery hits q n =
     (userId n = q_userId q \<and> isArchived n = q_isArchived q \<and>
      (case q_category q of None \<Rightarrow> True | Some c \<Rightarrow> category n = c) \<and>
      (case q_isPinned q of None \<Rightarrow> True | Some p \<Rightarrow> isPinned n = p) \<and>
      (case q_text q of None \<Rightarrow> True | Some s \<Rightarrow> textMatch hits s n))"

definition countDocuments :: "matcher \<Rightarrow> noteQuery \<Rightarrow> collection \<Rightarrow> nat" where
  "countDocuments hits q db = length (filter (matchesQuery hits q) db)"

text \<open>
  \<^verbatim>\<open>.sort({ [sortBy]: sortOrder })\<close>: ascending for 1, descending for -1, by a date or by the
  title; a key no document has leaves the order as it is. The store does not promise an
  order among equal keys.
\<close>

definition sortNotes :: "string \<Rightarrow> int \<Rightarrow> Note list \<Rightarrow> Note list" where
  "sortNotes sortBy sortOrder xs =
     (let asc = (if sortBy = ''title'' then sort_key title xs
                 else if sortBy = ''createdAt'' then sort_key createdAt xs
                 else if sortBy = ''updatedAt'' then sort_key updatedAt xs
                 else xs)
      in if sortOrder < 0 then rev asc else asc)"

text \<open>
  \<^verbatim>\<open>.limit(l).skip(k)\<close> set two options of one query: the store skips \<open>k\<close> documents and
  then returns at most \<open>l\<close>, in whichever order the two were chained. A limit of 0 is no
  limit; a negative skip is refused (\<open>None\<close>).
\<close>

definition limitSkip :: "int \<Rightarrow> int \<Rightarrow> Note list \<Rightarrow> Note list option" where
  "limitSkip l k xs =
     (if k < 0 then None
      else if l = 0 then Some (drop (nat k) xs)
      else Some (take (nat \<bar>l\<bar>) (drop (nat k) xs)))"

record findOptions =
  o_category :: "string option"
  o_isPinned :: "bool option"
  o_isArchived :: "bool option"
  o_search :: "string option"
  o_limit :: "int option"
  o_skip :: "int option"
  o_sortBy :: "string option"
  o_sortOrder :: "int option"

text \<open>\<^verbatim>\<open>if (x)\<close> on a string that may be absent.\<close>

definition truthy :: "string option \<Rightarrow> string option" where
  "truthy v = (case v of None \<Rightarrow> None | Some x \<Rightarrow> if x = [] then None else Some x)"

text \<open>The filter \<^verbatim>\<open>findUserNotes\<close> builds (models/Note.js).\<close>

definition findUserNotesQuery :: "nat \<Rightarrow> findOptions \<Rightarrow> noteQuery" where
  "findUserNotesQuery u opts =
     \<lparr>q_userId = u,
      q_isArchived = (case o_isArchived opts of None \<Rightarrow> False | Some a \<Rightarrow> a),
      q_category = truthy (o_category opts),
      q_isPinned = o_isPinned opts,
      q_text = truthy (o_search opts)\<rparr>"

definition findUserNotes :: "matcher \<Rightarrow> nat \<Rightarrow> findOptions \<Rightarrow> collection \<Rightarrow> Note list option" where
  "findUserNotes hits u opts db =
     limitSkip (case o_limit opts of None \<Rightarrow> 50 | Some l \<Rightarrow> l)
               (case o_skip opts of None \<Rightarrow> 0 | Some k \<Rightarrow> k)
       (sortNotes (case o_sortBy opts of None \<Rightarrow> ''updatedAt'' | Some f \<Rightarrow> f)
                  (case o_sortOrder opts of None \<Rightarrow> - 1 | Some d \<Rightarrow> d)
          (filter (matchesQuery hits (findUserNotesQuery u opts)) db))"

text \<open>
  The query string of \<^verbatim>\<open>GET /\<close>. \<open>page\<close> and \<open>limit\<close> hold the number \<^verbatim>\<open>parseInt\<close> reads
  from an integer literal; the other parameters are the strings as sent.
\<close>

record listQuery =
  rq_page :: "int option"
  rq_limit :: "int option"
  rq_category :: "string option"
  rq_isPinned :: "string option"
  rq_isArchived :: "string option"
  rq_search :: "string option"
  rq_sortBy :: "string option"
  rq_sortOrder :: "string option"

text \<open>\<^verbatim>\<open>isBoolean()\<close> of the validator library.\<close>

definition isBoolean :: "string \<Rightarrow> bool" where
  "isBoolean s = List.member [''true'', ''false'', ''1'', ''0''] s"

definition queryValidation :: "listQuery \<Rightarrow> string list" where
  "queryValidation q =
     optional (rq_page q) (\<lambda>p. check (1 \<le> p) ''Page must be a positive integer'') @
     optional (rq_limit q) (\<lambda>l. check (1 \<le> l \<and> l \<le> 100) ''Limit must be between 1 and 100'') @
     optional (rq_category q) categoryChain @
     optional (rq_isPinned q) (\<lambda>s. check (isBoolean s) ''isPinned must be a boolean'') @
     optional (rq_isArchived q) (\<lambda>s. check (isBoolean s) ''isArchived must be a boolean'') @
     optional (rq_sortBy q) (\<lambda>s. check (List.member [''createdAt'', ''updatedAt'', ''title''] s)
        ''sortBy must be one of: createdAt, updatedAt, title'') @
     optional (rq_sortOrder q) (\<lambda>s. check (List.member [''asc'', ''desc''] s)
        ''sortOrder must be either asc or desc'')"

record pagination =
  currentPage :: int
  totalPages :: int
  totalNotes :: nat
  hasNextPage :: bool
  hasPrevPage :: bool

text \<open>The destructuring defaults of the handler.\<close>

definition pageOf :: "listQuery \<Rightarrow> int" where
  "pageOf q = (case rq_page q of None \<Rightarrow> 1 | Some p \<Rightarrow> p)"

definition limitOf :: "listQuery \<Rightarrow> int" where
  "limitOf q = (case rq_limit q of None \<Rightarrow> 20 | Some l \<Rightarrow> l)"

definition isArchivedOf :: "listQuery \<Rightarrow> string" where
  "isArchivedOf q = (case rq_isArchived q of None \<Rightarrow> ''false'' | Some s \<Rightarrow> s)"

definition skipOf :: "listQuery \<Rightarrow> int" where
  "skipOf q = (pageOf q - 1) * limitOf q"

definition sortByOf :: "listQuery \<Rightarrow> string" where
  "sortByOf q = (case rq_sortBy q of None \<Rightarrow> ''updatedAt'' | Some f \<Rightarrow> f)"

definition sortOrderOf :: "listQuery \<Rightarrow> string" where
  "sortOrderOf q = (case rq_sortOrder q of None \<Rightarrow> ''desc'' | Some d \<Rightarrow> d)"

definition sortDirectionOf :: "listQuery \<Rightarrow> int" where
  "sortDirectionOf q = (if sortOrderOf q = ''desc'' then - 1 else 1)"

definition optionsOf :: "listQuery \<Rightarrow> findOptions" where
  "optionsOf q =
     \<lparr>o_category = rq_category q,
      o_isPinned = (case rq_isPinned q of None \<Rightarrow> None | Some s \<Rightarrow> Some (s = ''true'')),
      o_isArchived = Some (isArchivedOf q = ''true''),
      o_search = rq_search q,
      o_limit = Some (limitOf q),
      o_skip = Some (skipOf q),
      o_sortBy = Some (sortByOf q),
      o_sortOrder = Some (sortDirectionOf q)\<rparr>"

text \<open>The filter of the count, built in the handler (routes/notes.js).\<close>

definition countQuery :: "nat \<Rightarrow> listQuery \<Rightarrow> noteQuery" where
  "countQuery u q =
     \<lparr>q_userId = u,
      q_isArchived = (isArchivedOf q = ''true''),
      q_category = truthy (rq_category q),
      q_isPinned = (case rq_isPinned q of None \<Rightarrow> None | Some s \<Rightarrow> Some (s = ''true'')),
      q_text = truthy (rq_search q)\<rparr>"

text \<open>\<^verbatim>\<open>Math.ceil(totalNotes / parseInt(limit))\<close>\<close>

definition totalPagesOf :: "nat \<Rightarrow> int \<Rightarrow> int" where
  "totalPagesOf cnt l = \<lceil>real cnt / real_of_int l\<rceil>"

definition list_handler :: "matcher \<Rightarrow> nat \<Rightarrow> listQuery \<Rightarrow> collection \<Rightarrow>
    failure + (Note list \<times> pagination) reply" where
  "list_handler hits u q db =
     (case findUserNotes hits u (optionsOf q) db of
        None \<Rightarrow> Inl (ErrorResponse 500 ''Failed to retrieve notes''
          ''Unable to fetch notes. Please try again.'')
      | Some found \<Rightarrow>
          (let cnt = countDocuments hits (countQuery u q) db;
               pages = totalPagesOf cnt (limitOf q)
           in Inr (Reply 200 ''Notes retrieved successfully''
                (found, \<lparr>currentPage = pageOf q, totalPages = pages, totalNotes = cnt,
                         hasNextPage = (pageOf q < pages), hasPrevPage = (pageOf q > 1)\<rparr>))))"

definition list_notes :: "matcher \<Rightarrow> nat \<Rightarrow> listQuery \<Rightarrow> collection \<Rightarrow>
    failure + (Note list \<times> pagination) reply" where
  "list_notes hits u q db =
     (case handleValidationErrors (queryValidation q) of
        Some f \<Rightarrow> Inl f
      | None \<Rightarrow> list_handler hits u q db)"

section \<open>Statistics\<close>

text \<open>
  The JSON object of the statistics; \<open>categories\<close> is an object, kept as the list of its
  keys with their values.
\<close>

record stats =
  totalNotes :: nat
  pinnedNotes :: nat
  categories :: "(string \<times> nat) list"

text \<open>The document \<^verbatim>\<open>$group\<close> produces, with the pushed categories.\<close>

record grouped =
  g_totalNotes :: nat
  g_pinnedNotes :: nat
  g_categoryCounts :: "string list"

text \<open>\<^verbatim>\<open>{ $match: { userId, isArchived: false } }\<close>\<close>

definition matchStage :: "nat \<Rightarrow> collection \<Rightarrow> Note list" where
  "matchStage u db = filter (\<lambda>n. userId n = u \<and> isArchived n = False) db"

text \<open>
  \<^verbatim>\<open>$group\<close> with \<^verbatim>\<open>_id: null\<close>: one document for all the input documents, and no
  document when there is no input.
\<close>

definition groupStage :: "Note list \<Rightarrow> grouped list" where
  "groupStage ms =
     (if ms = [] then []
      else [\<lparr>g_totalNotes = sum_list (map (\<lambda>n. 1) ms),
             g_pinnedNotes = sum_list (map (\<lambda>n. if isPinned n = True then 1 else 0) ms),
             g_categoryCounts = map category ms\<rparr>])"

definition sizeFilter :: "string list \<Rightarrow> string \<Rightarrow> nat" where
  "sizeFilter cs c = length (filter (\<lambda>x. x = c) cs)"

definition projectStage :: "grouped \<Rightarrow> stats" where
  "projectStage g =
     \<lparr>totalNotes = g_totalNotes g,
      pinnedNotes = g_pinnedNotes g,
      categories =
        [(''personal'', sizeFilter (g_categoryCounts g) ''personal''),
         (''work'', sizeFilter (g_categoryCounts g) ''work''),
         (''creative'', sizeFilter (g_categoryCounts g) ''creative''),
         (''study'', sizeFilter (g_categoryCounts g) ''study'')]\<rparr>"

text \<open>
  \<^verbatim>\<open>getUserStats\<close> builds its \<^verbatim>\<open>$match\<close> stage with \<^verbatim>\<open>mongoose.Types.ObjectId(userId)\<close>,
  a call without \<^verbatim>\<open>new\<close>. What the call gives depends on the generation of the
  library, which the sources do not fix: where \<^verbatim>\<open>ObjectId\<close> is a function constructor
  (mongoose 5 and 6) it returns the identifier; where it is a class (mongoose 7 and later)
  it throws a \<^verbatim>\<open>TypeError\<close>. The call is a parameter of the model, \<open>None\<close> being the
  thrown error.
\<close>

type_synonym objectIdCall = "nat \<Rightarrow> nat option"

definition functionObjectId :: objectIdCall where
  "functionObjectId i = Some i"

definition classObjectId :: objectIdCall where
  "classObjectId i = None"

definition getUserStats :: "objectIdCall \<Rightarrow> nat \<Rightarrow> collection \<Rightarrow> stats list option" where
  "getUserStats objectId u db =
     (case objectId u of
        None \<Rightarrow> None
      | Some v \<Rightarrow> Some (map projectStage (groupStage (matchStage v db))))"

text \<open>
  The handler of \<^verbatim>\<open>GET /stats\<close>: \<^verbatim>\<open>stats[0] || { totalNotes: 0, ... }\<close>, and the
  \<^verbatim>\<open>catch\<close> branch for a throwing \<^verbatim>\<open>getUserStats\<close>.
\<close>

definition get_stats :: "objectIdCall \<Rightarrow> nat \<Rightarrow> collection \<Rightarrow> failure + stats reply" where
  "get_stats objectId u db =
     (case getUserStats objectId u db of
        None \<Rightarrow> Inl (ErrorResponse 500 ''Failed to retrieve statistics''
          ''Unable to fetch statistics. Please try again.'')
      | Some found \<Rightarrow>
          Inr (Reply 200 ''Statistics retrieved successfully''
            (case found of
               [] \<Rightarrow> \<lparr>totalNotes = 0, pinnedNotes = 0,
                      categories = [(''personal'', 0), (''work'', 0), (''creative'', 0), (''study'', 0)]\<rparr>
             | s # _ \<Rightarrow> s)))"

section \<open>Accounts (the auth router)\<close>

record user =
  u_id :: nat
  u_firstName :: string
  u_lastName :: string
  u_email :: string
  u_password :: string
  u_isActive :: bool
  u_lastLogin :: "nat option"

text \<open>
  What the handlers use of the User model and of the token library, none of it among the
  sources: \<open>comparePassword user candidate\<close> verifies a candidate against the stored hash,
  \<open>getFullName\<close> renders the name, \<open>sign\<close> issues the token for a user identifier.
\<close>

record userModel =
  comparePassword :: "user \<Rightarrow> string \<Rightarrow> bool"
  getFullName :: "user \<Rightarrow> string"
  sign :: "nat \<Rightarrow> string"

definition toLowerCase :: "string \<Rightarrow> string" where
  "toLowerCase s =
     map (\<lambda>c. case map_of (zip ''ABCDEFGHIJKLMNOPQRSTUVWXYZ'' ''abcdefghijklmnopqrstuvwxyz'') c of
                None \<Rightarrow> c
              | Some l \<Rightarrow> l) s"

text \<open>
  Modelled from the spec: \<^verbatim>\<open>User.findByEmail\<close> (models/User.js is not among the sources).
  The spec has the email normalised to lowercase before any comparison, and unique; the
  lookup returns the user stored under the lowercased address. Lowercasing maps the
  letters A to Z.
\<close>

definition findByEmail :: "user list \<Rightarrow> string \<Rightarrow> user option" where
  "findByEmail users e = find (\<lambda>x. u_email x = toLowerCase e) users"

text \<open>\<^verbatim>\<open>user.save()\<close>: the stored user with the same identifier is replaced.\<close>

definition saveUser :: "user \<Rightarrow> user list \<Rightarrow> user list" where
  "saveUser x users = map (\<lambda>y. if u_id y = u_id x then x else y) users"

record loginData =
  token :: string
  l_id :: nat
  l_firstName :: string
  l_lastName :: string
  l_email :: string
  l_fullName :: string
  l_lastLogin :: "nat option"

text \<open>
  The handler of \<^verbatim>\<open>POST /login\<close>, for an email and a password that passed the validation
  chain; \<open>now\<close> is the time of the request.
\<close>

definition login :: "userModel \<Rightarrow> string \<Rightarrow> string \<Rightarrow> nat \<Rightarrow> user list \<Rightarrow>
    user list \<times> (failure + loginData reply)" where
  "login M email password now users =
     (case findByEmail users email of
        None \<Rightarrow> (users, Inl (ErrorResponse 400 ''Invalid credentials'' ''Invalid email or password.''))
      | Some x \<Rightarrow>
          if \<not> u_isActive x
          then (users, Inl (ErrorResponse 400 ''Account deactivated''
                  ''Your account has been deactivated. Please contact support.''))
          else if \<not> comparePassword M x password
          then (users, Inl (ErrorResponse 400 ''Invalid credentials'' ''Invalid email or password.''))
          else (let x' = x\<lparr>u_lastLogin := Some now\<rparr> in
                (saveUser x' users,
                 Inr (Reply 200 ''Login successful''
                   \<lparr>token = sign M (u_id x'), l_id = u_id x', l_firstName = u_firstName x',
                    l_lastName = u_lastName x', l_email = u_email x',
                    l_fullName = getFullName M x', l_lastLogin = u_lastLogin x'\<rparr>))))"

text \<open>
  The handler of \<^verbatim>\<open>POST /forgot-password\<close>, for an email that passed the validation chain:
  the users afterwards, the response, and the lines written to the console.
\<close>

definition forgot_password :: "string \<Rightarrow> user list \<Rightarrow> user list \<times> unit reply \<times> string list" where
  "forgot_password email users =
     (users,
      Reply 200 ''If an account with that email exists, a password reset link has been sent.'' (),
      (case findByEmail users email of
         None \<Rightarrow> []
       | Some x \<Rightarrow> [''Password reset requested for user: '' @ u_email x]))"

section \<open>Reading responses\<close>

text \<open>The 404 response of the per-note routes, whatever its message.\<close>

definition notFound :: "failure + 'a \<Rightarrow> bool" where
  "notFound r =
     (case r of Inl (ErrorResponse s e m) \<Rightarrow> s = 404 \<and> e = ''Note not found'' | _ \<Rightarrow> False)"

text \<open>The notes and the pagination block of a listing; a failed request lists nothing.\<close>

definition notesOf :: "failure + (Note list \<times> pagination) reply \<Rightarrow> Note list" where
  "notesOf r = (case r of Inl _ \<Rightarrow> [] | Inr x \<Rightarrow> fst (data x))"


text \<open>A sample note, for the concrete instances below.\<close>

abbreviation sample :: "nat \<Rightarrow> nat \<Rightarrow> string \<Rightarrow> string \<Rightarrow> bool \<Rightarrow> nat \<Rightarrow> Note" where
  "sample i u t c a ms \<equiv>
     \<lparr>nid = i, title = t, content = c, category = ''work'', tags = [], isPinned = False,
      isArchived = a, color = ''#ffffff'', userId = u, createdAt = ms, updatedAt = ms\<rparr>"

abbreviation emptyQuery :: listQuery where
  "emptyQuery \<equiv>
     \<lparr>rq_page = None, rq_limit = None, rq_category = None, rq_isPinned = None,
      rq_isArchived = None, rq_search = None, rq_sortBy = None, rq_sortOrder = None\<rparr>"

text \<open>A sample matcher: one match when the text is the search string, none otherwise.\<close>

definition wholeText :: matcher where
  "wholeText s t = (if t = s then 1 else 0)"

text \<open>A sample User model: the stored hash is the password itself.\<close>

definition sampleModel :: userModel where
  "sampleModel =
     \<lparr>comparePassword = (\<lambda>x candidate. u_password x = candidate),
      getFullName = (\<lambda>x. u_firstName x @ '' '' @ u_lastName x),
      sign = (\<lambda>i. ''token'')\<rparr>"

abbreviation sampleUser :: "nat \<Rightarrow> string \<Rightarrow> string \<Rightarrow> bool \<Rightarrow> user" where
  "sampleUser i e p a \<equiv>
     \<lparr>u_id = i, u_firstName = ''Ada'', u_lastName = ''Lovelace'', u_email = e, u_password = p,
      u_isActive = a, u_lastLogin = None\<rparr>"

abbreviation emptyBody :: noteBody where
  "emptyBody \<equiv>
     \<lparr>b_title = None, b_content = None, b_category = None, b_tags = None, b_isPinned = None,
      b_isArchived = None, b_color = None\<rparr>"

section \<open>Facts about trimming and lookup\<close>

lemma dropWhile_rev_head:
  assumes "xs = [] \<or> \<not> P (hd xs)"
  shows "rev (dropWhile P (rev xs)) = [] \<or> \<not> P (hd (rev (dropWhile P (rev xs))))"
  by (metis assms hd_rev Nil_is_rev_conv rev_rev_ident dropWhile_last dropWhile.simps(1)
      dropWhile_eq_Nil_conv)

lemma trim_head: "trim s = [] \<or> \<not> isWhiteSpace (hd (trim s))"
proof -
  have "dropWhile isWhiteSpace s = [] \<or> \<not> isWhiteSpace (hd (dropWhile isWhiteSpace s))"
    by (metis hd_dropWhile)
  then show ?thesis
    using dropWhile_rev_head [of "dropWhile isWhiteSpace s" isWhiteSpace]
    by (simp add: trim_def)
qed

lemma trim_idem: "trim (trim s) = trim s"
proof -
  have lead: "dropWhile isWhiteSpace (trim s) = trim s"
    using trim_head [of s] by (cases "trim s") auto
  have trail: "dropWhile isWhiteSpace (rev (trim s)) = rev (trim s)"
    by (simp add: trim_def)
  show ?thesis
    unfolding trim_def [of "trim s"] lead trail by simp
qed

lemma trim_o_trim: "trim \<circ> trim = trim"
  by (simp add: fun_eq_iff trim_idem)

lemma findOne_None_iff:
  "findOne i u db = None \<longleftrightarrow> \<not> (\<exists>n\<in>set db. nid n = i \<and> userId n = u)"
  by (auto simp: findOne_def find_None_iff)

lemma findOne_SomeD: "findOne i u db = Some n \<Longrightarrow> n \<in> set db \<and> nid n = i \<and> userId n = u"
  by (auto simp: findOne_def find_Some_iff)

lemma findOne_replace:
  assumes "findOne i u db = Some n" and "nid n' = i" and "userId n' = u"
  shows "findOne i u (map (\<lambda>m. if nid m = i then n' else m) db) = Some n'"
  using assms unfolding findOne_def
  by (induction db) (auto split: if_splits)

lemma schemaValid_fields:
  "schemaValid n \<longleftrightarrow>
     1 \<le> length (title n) \<and> length (title n) \<le> 200 \<and>
     1 \<le> length (content n) \<and> length (content n) \<le> 10000 \<and>
     List.member categoryEnum (category n) \<and>
     list_all (\<lambda>t. length t \<le> 30) (tags n) \<and>
     (color n = [] \<or> isHexColor (color n))"
  by (simp add: schemaValid_def schemaPaths_def validatePath_def)

lemma schemaValid_flags:
  "schemaValid (n\<lparr>isPinned := p\<rparr>) = schemaValid n"
  "schemaValid (n\<lparr>isArchived := a\<rparr>) = schemaValid n"
  "schemaValid (n\<lparr>updatedAt := t\<rparr>) = schemaValid n"
  "schemaValid (preSave now n) = schemaValid n"
  by (simp_all add: schemaValid_fields preSave_def)

lemma save_valid:
  assumes "schemaValid n"
  shows "save now n db =
     Some (map (\<lambda>m. if nid m = nid n then preSave now n else m) db, preSave now n)"
  using assms by (simp add: save_def Let_def schemaValid_flags) (simp add: preSave_def)

lemma save_invalid:
  assumes "\<not> schemaValid n"
  shows "save now n db = None"
  using assms by (simp add: save_def Let_def schemaValid_flags)

section \<open>Ownership and the 404 response\<close>

text \<open>
  C1. GetById, Update, Delete, TogglePin and ToggleArchive, called by user \<open>u\<close> for the note
  identifier \<open>i\<close>, answer 404 "Note not found" exactly when the collection has no note whose
  identifier is \<open>i\<close> and whose owner is \<open>u\<close>. For Update this holds of the handler on any body
  and of the whole route on a body that passes validation. When there is no such note the
  response is one fixed value per route and the collection is left as it was: the response
  does not depend on the collection, so a missing identifier and a note of another owner
  give the same response. Every route looks the note up with the one filter on identifier
  and owner, \<open>findOne\<close>.
\<close>

theorem per_note_not_found:
  "(notFound (get_note u i db) \<longleftrightarrow> \<not> (\<exists>n\<in>set db. nid n = i \<and> userId n = u)) \<and>
   (notFound (snd (update_handler u i b now db)) \<longleftrightarrow> \<not> (\<exists>n\<in>set db. nid n = i \<and> userId n = u)) \<and>
   (notFound (snd (delete_note u i db)) \<longleftrightarrow> \<not> (\<exists>n\<in>set db. nid n = i \<and> userId n = u)) \<and>
   (notFound (snd (pin_note u i now db)) \<longleftrightarrow> \<not> (\<exists>n\<in>set db. nid n = i \<and> userId n = u)) \<and>
   (notFound (snd (archive_note u i now db)) \<longleftrightarrow> \<not> (\<exists>n\<in>set db. nid n = i \<and> userId n = u)) \<and>
   (updateNoteValidation b = [] \<longrightarrow>
      (notFound (snd (update_note u i b now db)) \<longleftrightarrow> \<not> (\<exists>n\<in>set db. nid n = i \<and> userId n = u))) \<and>
   (\<not> (\<exists>n\<in>set db. nid n = i \<and> userId n = u) \<longrightarrow>
      get_note u i db = Inl (ErrorResponse 404 ''Note not found''
        ''The requested note does not exist or you do not have permission to view it.'') \<and>
      update_handler u i b now db = (db, Inl (ErrorResponse 404 ''Note not found''
        ''The requested note does not exist or you do not have permission to update it.'')) \<and>
      delete_note u i db = (db, Inl (ErrorResponse 404 ''Note not found''
        ''The requested note does not exist or you do not have permission to delete it.'')) \<and>
      pin_note u i now db = (db, Inl (ErrorResponse 404 ''Note not found''
        ''The requested note does not exist or you do not have permission to modify it.'')) \<and>
      archive_note u i now db = (db, Inl (ErrorResponse 404 ''Note not found''
        ''The requested note does not exist or you do not have permission to modify it.'')))"
proof (cases "findOne i u db")
  case None
  then have "\<not> (\<exists>n\<in>set db. nid n = i \<and> userId n = u)"
    by (simp add: findOne_None_iff)
  with None show ?thesis
    by (simp add: notFound_def get_note_def update_handler_def update_note_def
        handleValidationErrors_def delete_note_def findOneAndDelete_def pin_note_def
        archive_note_def)
next
  case (Some n)
  then have ex: "\<exists>n\<in>set db. nid n = i \<and> userId n = u"
    using findOne_SomeD by blast
  have upd: "\<not> notFound (snd (update_handler u i b' now db))" for b'
    using Some by (simp add: notFound_def update_handler_def split: option.splits prod.splits)
  have pin: "\<not> notFound (snd (pin_note u i now db))"
    using Some by (simp add: notFound_def pin_note_def split: option.splits prod.splits)
  have arc: "\<not> notFound (snd (archive_note u i now db))"
    using Some by (simp add: notFound_def archive_note_def split: option.splits prod.splits)
  from Some ex upd pin arc show ?thesis
    by (simp add: notFound_def get_note_def update_note_def handleValidationErrors_def
        delete_note_def findOneAndDelete_def)
qed

text \<open>
  User 1 asks for note 2, which user 2 owns, and for note 3, which nobody has: the same
  responses, and the collection unchanged.
\<close>

theorem per_note_not_found_witness:
  "get_note 1 2 [sample 1 1 ''a'' ''b'' False 0, sample 2 2 ''c'' ''d'' False 0] =
     Inl (ErrorResponse 404 ''Note not found''
       ''The requested note does not exist or you do not have permission to view it.'') \<and>
   get_note 1 3 [sample 1 1 ''a'' ''b'' False 0, sample 2 2 ''c'' ''d'' False 0] =
     Inl (ErrorResponse 404 ''Note not found''
       ''The requested note does not exist or you do not have permission to view it.'') \<and>
   delete_note 1 2 [sample 1 1 ''a'' ''b'' False 0, sample 2 2 ''c'' ''d'' False 0] =
     delete_note 1 3 [sample 1 1 ''a'' ''b'' False 0, sample 2 2 ''c'' ''d'' False 0] \<and>
   notFound (snd (update_note 1 2 (emptyBody\<lparr>b_isPinned := Some True\<rparr>) 5
     [sample 1 1 ''a'' ''b'' False 0, sample 2 2 ''c'' ''d'' False 0])) \<and>
   \<not> notFound (snd (update_note 2 2 (emptyBody\<lparr>b_isPinned := Some True\<rparr>) 5
     [sample 1 1 ''a'' ''b'' False 0, sample 2 2 ''c'' ''d'' False 0])) \<and>
   \<not> notFound (snd (pin_note 2 2 5 [sample 1 1 ''a'' ''b'' False 0, sample 2 2 ''c'' ''d'' False 0]))"
  using per_note_not_found [where u = 1 and i = 2 and now = 5
      and b = "emptyBody\<lparr>b_isPinned := Some True\<rparr>"
      and db = "[sample 1 1 ''a'' ''b'' False 0, sample 2 2 ''c'' ''d'' False 0]"]
    per_note_not_found [where u = 1 and i = 3 and now = 5
      and b = "emptyBody\<lparr>b_isPinned := Some True\<rparr>"
      and db = "[sample 1 1 ''a'' ''b'' False 0, sample 2 2 ''c'' ''d'' False 0]"]
    per_note_not_found [where u = 2 and i = 2 and now = 5
      and b = "emptyBody\<lparr>b_isPinned := Some True\<rparr>"
      and db = "[sample 1 1 ''a'' ''b'' False 0, sample 2 2 ''c'' ''d'' False 0]"]
  by (simp add: updateNoteValidation_def optional_def)

lemma pin_note_found:
  assumes "findOne i u db = Some n" and "schemaValid n"
  shows "pin_note u i now db =
     (map (\<lambda>m. if nid m = i then n\<lparr>isPinned := \<not> isPinned n, updatedAt := now\<rparr> else m) db,
      Inr (Reply 200 (''Note '' @ (if \<not> isPinned n then ''pinned'' else ''unpinned'') @ '' successfully'')
        (i, \<not> isPinned n)))"
  using assms findOne_SomeD [OF assms(1)]
  by (simp add: pin_note_def save_valid schemaValid_flags preSave_def)

lemma archive_note_found:
  assumes "findOne i u db = Some n" and "schemaValid n"
  shows "archive_note u i now db =
     (map (\<lambda>m. if nid m = i then n\<lparr>isArchived := \<not> isArchived n, updatedAt := now\<rparr> else m) db,
      Inr (Reply 200 (''Note '' @ (if \<not> isArchived n then ''archived'' else ''unarchived'') @ '' successfully'')
        (i, \<not> isArchived n)))"
  using assms findOne_SomeD [OF assms(1)]
  by (simp add: archive_note_def save_valid schemaValid_flags preSave_def)

lemma save_keeps_schema:
  assumes "save now n db = Some (db', n')" and "list_all schemaValid db"
  shows "list_all schemaValid db'"
proof -
  from assms(1) have v: "schemaValid n'" and d: "db' = map (\<lambda>m. if nid m = nid n' then n' else m) db"
    by (auto simp: save_def Let_def split: if_splits)
  from assms(2) v show ?thesis
    unfolding d by (induction db) auto
qed

lemma saveNew_keeps_schema:
  assumes "saveNew now n db = Some (db', n')" and "list_all schemaValid db"
  shows "list_all schemaValid db'"
  using assms by (auto simp: saveNew_def Let_def split: if_splits)

text \<open>
  Every note the routes write satisfies the schema: a collection of valid notes stays one
  under Create, Update, Delete, TogglePin and ToggleArchive.
\<close>

lemma routes_keep_schema:
  assumes "list_all schemaValid db"
  shows "list_all schemaValid (fst (create_note u i b now db))"
    and "list_all schemaValid (fst (update_note u i b now db))"
    and "list_all schemaValid (fst (delete_note u i db))"
    and "list_all schemaValid (fst (pin_note u i now db))"
    and "list_all schemaValid (fst (archive_note u i now db))"
proof -
  show "list_all schemaValid (fst (create_note u i b now db))"
    using assms saveNew_keeps_schema
    by (auto simp: create_note_def create_handler_def split: option.splits prod.splits)
  show "list_all schemaValid (fst (update_note u i b now db))"
    using assms save_keeps_schema
    by (auto simp: update_note_def update_handler_def split: option.splits prod.splits)
  show "list_all schemaValid (fst (delete_note u i db))"
    using assms
    by (auto simp: delete_note_def findOneAndDelete_def list_all_iff
        split: option.splits prod.splits dest: notin_set_remove1)
  show "list_all schemaValid (fst (pin_note u i now db))"
    using assms save_keeps_schema
    by (auto simp: pin_note_def split: option.splits prod.splits)
  show "list_all schemaValid (fst (archive_note u i now db))"
    using assms save_keeps_schema
    by (auto simp: archive_note_def split: option.splits prod.splits)
qed

section \<open>Pin and archive toggles\<close>

text \<open>
  C10. For a note \<open>n\<close> that user \<open>u\<close> owns under the identifier \<open>i\<close> and that satisfies the
  schema, as every note written through the routes does: TogglePin stores the note with
  \<open>isPinned\<close> negated and \<open>updatedAt\<close> set to the time of the save, every other field and
  every other document as before, and returns the identifier with the new flag; a second
  TogglePin stores \<open>n\<close> again but for \<open>updatedAt\<close>, and returns the original flag.
  ToggleArchive does the same with \<open>isArchived\<close>.
\<close>

theorem toggle_involution:
  assumes "findOne i u db = Some n" and "schemaValid n"
  shows "pin_note u i t1 db =
           (map (\<lambda>m. if nid m = i then n\<lparr>isPinned := \<not> isPinned n, updatedAt := t1\<rparr> else m) db,
            Inr (Reply 200 (''Note '' @ (if \<not> isPinned n then ''pinned'' else ''unpinned'') @ '' successfully'')
              (i, \<not> isPinned n))) \<and>
     findOne i u (fst (pin_note u i t1 db)) = Some (n\<lparr>isPinned := \<not> isPinned n, updatedAt := t1\<rparr>) \<and>
     findOne i u (fst (pin_note u i t2 (fst (pin_note u i t1 db)))) = Some (n\<lparr>updatedAt := t2\<rparr>) \<and>
     snd (pin_note u i t2 (fst (pin_note u i t1 db))) =
            Inr (Reply 200 (''Note '' @ (if isPinned n then ''pinned'' else ''unpinned'') @ '' successfully'')
              (i, isPinned n)) \<and>
     archive_note u i t1 db =
           (map (\<lambda>m. if nid m = i then n\<lparr>isArchived := \<not> isArchived n, updatedAt := t1\<rparr> else m) db,
            Inr (Reply 200 (''Note '' @ (if \<not> isArchived n then ''archived'' else ''unarchived'') @ '' successfully'')
              (i, \<not> isArchived n))) \<and>
     findOne i u (fst (archive_note u i t1 db)) = Some (n\<lparr>isArchived := \<not> isArchived n, updatedAt := t1\<rparr>) \<and>
     findOne i u (fst (archive_note u i t2 (fst (archive_note u i t1 db)))) = Some (n\<lparr>updatedAt := t2\<rparr>) \<and>
     snd (archive_note u i t2 (fst (archive_note u i t1 db))) =
            Inr (Reply 200 (''Note '' @ (if isArchived n then ''archived'' else ''unarchived'') @ '' successfully'')
              (i, isArchived n))"
proof -
  note d = findOne_SomeD [OF assms(1)]
  let ?p = "n\<lparr>isPinned := \<not> isPinned n, updatedAt := t1\<rparr>"
  let ?a = "n\<lparr>isArchived := \<not> isArchived n, updatedAt := t1\<rparr>"
  have vp: "schemaValid ?p" and va: "schemaValid ?a"
    using assms(2) by (simp_all add: schemaValid_fields)
  have p1: "pin_note u i t1 db =
           (map (\<lambda>m. if nid m = i then ?p else m) db,
            Inr (Reply 200 (''Note '' @ (if \<not> isPinned n then ''pinned'' else ''unpinned'') @ '' successfully'')
              (i, \<not> isPinned n)))"
    by (rule pin_note_found [OF assms])
  have p2: "findOne i u (fst (pin_note u i t1 db)) = Some ?p"
    using d by (simp add: p1 findOne_replace [OF assms(1)])
  have p3: "pin_note u i t2 (fst (pin_note u i t1 db)) =
      (map (\<lambda>m. if nid m = i then ?p\<lparr>isPinned := \<not> isPinned ?p, updatedAt := t2\<rparr> else m)
         (fst (pin_note u i t1 db)),
       Inr (Reply 200 (''Note '' @ (if \<not> isPinned ?p then ''pinned'' else ''unpinned'') @ '' successfully'')
              (i, \<not> isPinned ?p)))"
    by (rule pin_note_found [OF p2 vp])
  have p4: "findOne i u (fst (pin_note u i t2 (fst (pin_note u i t1 db)))) = Some (n\<lparr>updatedAt := t2\<rparr>)"
    using d by (simp add: p3 findOne_replace [OF p2])
  have p5: "snd (pin_note u i t2 (fst (pin_note u i t1 db))) =
            Inr (Reply 200 (''Note '' @ (if isPinned n then ''pinned'' else ''unpinned'') @ '' successfully'')
              (i, isPinned n))"
    by (simp add: p3)
  have a1: "archive_note u i t1 db =
           (map (\<lambda>m. if nid m = i then ?a else m) db,
            Inr (Reply 200 (''Note '' @ (if \<not> isArchived n then ''archived'' else ''unarchived'') @ '' successfully'')
              (i, \<not> isArchived n)))"
    by (rule archive_note_found [OF assms])
  have a2: "findOne i u (fst (archive_note u i t1 db)) = Some ?a"
    using d by (simp add: a1 findOne_replace [OF assms(1)])
  have a3: "archive_note u i t2 (fst (archive_note u i t1 db)) =
      (map (\<lambda>m. if nid m = i then ?a\<lparr>isArchived := \<not> isArchived ?a, updatedAt := t2\<rparr> else m)
         (fst (archive_note u i t1 db)),
       Inr (Reply 200 (''Note '' @ (if \<not> isArchived ?a then ''archived'' else ''unarchived'') @ '' successfully'')
              (i, \<not> isArchived ?a)))"
    by (rule archive_note_found [OF a2 va])
  have a4: "findOne i u (fst (archive_note u i t2 (fst (archive_note u i t1 db)))) = Some (n\<lparr>updatedAt := t2\<rparr>)"
    using d by (simp add: a3 findOne_replace [OF a2])
  have a5: "snd (archive_note u i t2 (fst (archive_note u i t1 db))) =
            Inr (Reply 200 (''Note '' @ (if isArchived n then ''archived'' else ''unarchived'') @ '' successfully'')
              (i, isArchived n))"
    by (simp add: a3)
  from p1 p2 p4 p5 a1 a2 a4 a5 show ?thesis
    by blast
qed

text \<open>User 1 pins and unpins, archives and unarchives a note of two in the collection.\<close>

theorem toggle_involution_witness:
  "pin_note 1 1 5 [sample 1 1 ''a'' ''b'' False 0, sample 2 2 ''c'' ''d'' False 0] =
     ([(sample 1 1 ''a'' ''b'' False 0)\<lparr>isPinned := True, updatedAt := 5\<rparr>,
       sample 2 2 ''c'' ''d'' False 0],
      Inr (Reply 200 ''Note pinned successfully'' (1, True))) \<and>
   findOne 1 1 (fst (pin_note 1 1 9 (fst (pin_note 1 1 5
     [sample 1 1 ''a'' ''b'' False 0, sample 2 2 ''c'' ''d'' False 0])))) =
     Some ((sample 1 1 ''a'' ''b'' False 0)\<lparr>updatedAt := 9\<rparr>) \<and>
   snd (archive_note 1 1 9 (fst (archive_note 1 1 5
     [sample 1 1 ''a'' ''b'' False 0, sample 2 2 ''c'' ''d'' False 0]))) =
     Inr (Reply 200 ''Note unarchived successfully'' (1, False))"
proof -
  have owned: "findOne 1 1 [sample 1 1 ''a'' ''b'' False 0, sample 2 2 ''c'' ''d'' False 0] =
      Some (sample 1 1 ''a'' ''b'' False 0)"
    by (simp add: findOne_def)
  have valid: "schemaValid (sample 1 1 ''a'' ''b'' False 0)"
    by (simp add: schemaValid_fields categoryEnum_def isHexColor_def isHexDigit_def)
  from toggle_involution [OF owned valid, of 5 9] show ?thesis
    by (simp add: pin_note_def archive_note_def findOne_def save_def preSave_def
        schemaValid_fields categoryEnum_def isHexColor_def isHexDigit_def Let_def)
qed

section \<open>Validated bodies and what is stored\<close>

lemma check_Nil: "check ok msg = [] \<longleftrightarrow> ok"
  by (simp add: check_def)

lemma tagChain_Nil: "tagChain ts = [] \<longleftrightarrow> (\<forall>t\<in>set ts. length (trim t) \<le> 30)"
  by (induction ts) (auto simp: tagChain_def check_def)

lemma tagsChain_Nil: "tagsChain ts = [] \<longleftrightarrow> length ts \<le> 10"
  by (auto simp: tagsChain_def check_def)

lemma map_trim_clean: "map trim (filter P (map trim ts)) = filter P (map trim ts)"
  by (induction ts) (auto simp: trim_idem)

lemma stored_tags_short:
  assumes "tagChain ts = []"
  shows "list_all (\<lambda>t. length t \<le> 30) (filter (\<lambda>t. t \<noteq> []) (map trim ts))"
  using assms by (auto simp: tagChain_Nil list_all_iff)

lemma sel_assign: "sel (assign v f n) = (case v of None \<Rightarrow> sel n | Some x \<Rightarrow> sel (f x n))"
  by (simp add: assign_def split: option.splits)

lemma applied_fields:
  fixes b n
  defines "n' \<equiv> applyBody (sanitizeBody b) n"
  shows "title n' = (case b_title b of None \<Rightarrow> title n | Some t \<Rightarrow> trim t)"
    and "content n' = (case b_content b of None \<Rightarrow> content n | Some c \<Rightarrow> trim c)"
    and "category n' = (case b_category b of None \<Rightarrow> category n | Some c \<Rightarrow> c)"
    and "tags n' = (case b_tags b of None \<Rightarrow> tags n | Some ts \<Rightarrow> filter (\<lambda>t. t \<noteq> []) (map trim ts))"
    and "isPinned n' = (case b_isPinned b of None \<Rightarrow> isPinned n | Some p \<Rightarrow> p)"
    and "isArchived n' = (case b_isArchived b of None \<Rightarrow> isArchived n | Some a \<Rightarrow> a)"
    and "color n' = (case b_color b of None \<Rightarrow> color n | Some c \<Rightarrow> c)"
    and "nid n' = nid n" and "userId n' = userId n"
    and "createdAt n' = createdAt n" and "updatedAt n' = updatedAt n"
  unfolding n'_def applyBody_def sanitizeBody_def
  by (simp_all add: sel_assign [of title] sel_assign [of content] sel_assign [of category]
      sel_assign [of tags] sel_assign [of isPinned] sel_assign [of isArchived]
      sel_assign [of color] sel_assign [of nid] sel_assign [of userId]
      sel_assign [of createdAt] sel_assign [of updatedAt]
      setTitle_def setContent_def setTags_def cleanTags_def trim_idem trim_o_trim
      map_trim_clean split: option.splits)

lemma applied_valid:
  assumes "updateNoteValidation b = []" and "schemaValid n"
  shows "schemaValid (applyBody (sanitizeBody b) n)"
proof -
  let ?n = "applyBody (sanitizeBody b) n"
  from assms(1) have
    t: "optional (b_title b) titleChain = []" and
    c: "optional (b_content b) contentChain = []" and
    g: "optional (b_category b) categoryChain = []" and
    ts: "optional (b_tags b) tagChain = []" and
    co: "optional (b_color b) colorChain = []"
    by (simp_all add: updateNoteValidation_def)
  note v = assms(2) [unfolded schemaValid_fields]
  have 1: "1 \<le> length (title ?n) \<and> length (title ?n) \<le> 200"
    using t v by (cases "b_title b") (simp_all add: optional_def titleChain_def
        applied_fields check_Nil)
  have 2: "1 \<le> length (content ?n) \<and> length (content ?n) \<le> 10000"
    using c v by (cases "b_content b") (simp_all add: optional_def contentChain_def
        applied_fields check_Nil)
  have 3: "List.member categoryEnum (category ?n)"
    using g v by (cases "b_category b") (simp_all add: optional_def categoryChain_def
        applied_fields check_Nil)
  have 4: "list_all (\<lambda>t. length t \<le> 30) (tags ?n)"
    using ts v stored_tags_short by (cases "b_tags b") (simp_all add: optional_def
        applied_fields)
  have 5: "color ?n = [] \<or> isHexColor (color ?n)"
    using co v by (cases "b_color b") (simp_all add: optional_def colorChain_def
        applied_fields check_Nil)
  from 1 2 3 4 5 show ?thesis
    unfolding schemaValid_fields by blast
qed

lemma update_note_cases:
  assumes "findOne i u db = Some n"
  shows "update_note u i b now db =
     (if updateNoteValidation b = [] \<and> schemaValid (applyBody (sanitizeBody b) n)
      then (map (\<lambda>m. if nid m = i then preSave now (applyBody (sanitizeBody b) n) else m) db,
            Inr (Reply 200 ''Note updated successfully''
              (preSave now (applyBody (sanitizeBody b) n))))
      else if updateNoteValidation b = []
      then (db, Inl (ErrorResponse 500 ''Failed to update note''
              ''Unable to update note. Please try again.''))
      else (db, Inl (ValidationError (updateNoteValidation b))))"
proof -
  have "nid (applyBody (sanitizeBody b) n) = i"
    using findOne_SomeD [OF assms] by (simp add: applied_fields)
  then show ?thesis
    using assms
    by (simp add: update_note_def handleValidationErrors_def update_handler_def
        save_valid save_invalid)
qed

section \<open>Partial update\<close>

text \<open>
  C6 (as amended). Update by user \<open>u\<close> of a note \<open>n\<close> they own changes only the fields the
  body holds, and \<open>updatedAt\<close>: in the note stored afterwards, each of \<open>title\<close>, \<open>content\<close>,
  \<open>category\<close>, \<open>tags\<close>, \<open>isPinned\<close>, \<open>isArchived\<close> and \<open>color\<close> that the body omits has its
  previous value, as have identifier, owner and \<open>createdAt\<close>, while \<open>updatedAt\<close> is either
  its previous value (nothing was stored) or the time of the save. The collection is
  either left as it was or has this one note replaced. When the body passes validation
  and the stored note satisfies the schema, the updated note is stored and returned, the
  fields of the body hold the supplied values (title and content trimmed, tags trimmed
  and the empty ones dropped), and \<open>updatedAt\<close> is the time of the save.
\<close>

theorem update_note_frame:
  assumes "findOne i u db = Some n"
  shows "\<exists>n'. findOne i u (fst (update_note u i b now db)) = Some n' \<and>
     (b_title b = None \<longrightarrow> title n' = title n) \<and>
     (b_content b = None \<longrightarrow> content n' = content n) \<and>
     (b_category b = None \<longrightarrow> category n' = category n) \<and>
     (b_tags b = None \<longrightarrow> tags n' = tags n) \<and>
     (b_isPinned b = None \<longrightarrow> isPinned n' = isPinned n) \<and>
     (b_isArchived b = None \<longrightarrow> isArchived n' = isArchived n) \<and>
     (b_color b = None \<longrightarrow> color n' = color n) \<and>
     nid n' = nid n \<and> userId n' = userId n \<and> createdAt n' = createdAt n \<and>
     (updatedAt n' = updatedAt n \<or> updatedAt n' = now) \<and>
     (fst (update_note u i b now db) = db \<or>
      fst (update_note u i b now db) = map (\<lambda>m. if nid m = i then n' else m) db) \<and>
     (updateNoteValidation b = [] \<and> schemaValid n \<longrightarrow>
        update_note u i b now db =
          (map (\<lambda>m. if nid m = i then n' else m) db,
           Inr (Reply 200 ''Note updated successfully'' n')) \<and>
        title n' = (case b_title b of None \<Rightarrow> title n | Some t \<Rightarrow> trim t) \<and>
        content n' = (case b_content b of None \<Rightarrow> content n | Some c \<Rightarrow> trim c) \<and>
        category n' = (case b_category b of None \<Rightarrow> category n | Some c \<Rightarrow> c) \<and>
        tags n' = (case b_tags b of None \<Rightarrow> tags n
                   | Some ts \<Rightarrow> filter (\<lambda>t. t \<noteq> []) (map trim ts)) \<and>
        isPinned n' = (case b_isPinned b of None \<Rightarrow> isPinned n | Some p \<Rightarrow> p) \<and>
        isArchived n' = (case b_isArchived b of None \<Rightarrow> isArchived n | Some a \<Rightarrow> a) \<and>
        color n' = (case b_color b of None \<Rightarrow> color n | Some c \<Rightarrow> c) \<and>
        updatedAt n' = now)"
proof (cases "updateNoteValidation b = [] \<and> schemaValid (applyBody (sanitizeBody b) n)")
  case True
  let ?n = "preSave now (applyBody (sanitizeBody b) n)"
  note d = findOne_SomeD [OF assms]
  have r: "update_note u i b now db =
      (map (\<lambda>m. if nid m = i then ?n else m) db, Inr (Reply 200 ''Note updated successfully'' ?n))"
    using True by (simp add: update_note_cases [OF assms])
  have k: "nid ?n = i" "userId ?n = u"
    using d by (simp_all add: preSave_def applied_fields)
  have f: "findOne i u (map (\<lambda>m. if nid m = i then ?n else m) db) = Some ?n"
    by (rule findOne_replace [OF assms k])
  have flds:
    "title ?n = (case b_title b of None \<Rightarrow> title n | Some t \<Rightarrow> trim t)"
    "content ?n = (case b_content b of None \<Rightarrow> content n | Some c \<Rightarrow> trim c)"
    "category ?n = (case b_category b of None \<Rightarrow> category n | Some c \<Rightarrow> c)"
    "tags ?n = (case b_tags b of None \<Rightarrow> tags n
                | Some ts \<Rightarrow> filter (\<lambda>t. t \<noteq> []) (map trim ts))"
    "isPinned ?n = (case b_isPinned b of None \<Rightarrow> isPinned n | Some p \<Rightarrow> p)"
    "isArchived ?n = (case b_isArchived b of None \<Rightarrow> isArchived n | Some a \<Rightarrow> a)"
    "color ?n = (case b_color b of None \<Rightarrow> color n | Some c \<Rightarrow> c)"
    "createdAt ?n = createdAt n" "updatedAt ?n = now"
    by (simp_all add: preSave_def applied_fields)
  show ?thesis
    by (rule exI [of _ ?n]) (use d in \<open>simp add: r f k flds\<close>)
next
  case False
  then have inv: "\<not> (updateNoteValidation b = [] \<and> schemaValid n)"
    using applied_valid [of b n] by blast
  from False have r: "fst (update_note u i b now db) = db"
    by (auto simp: update_note_cases [OF assms])
  show ?thesis
  proof (rule exI [of _ n], intro conjI impI)
  qed (use inv r assms in simp_all)
qed

text \<open>A new title and two tags, one of them blank: the rest of the note stays.\<close>

theorem update_note_frame_witness:
  "\<exists>n'. update_note 1 1 (emptyBody\<lparr>b_title := Some '' new '', b_tags := Some ['' x '', ''  '']\<rparr>) 9
           [sample 1 1 ''a'' ''b'' False 5, sample 2 2 ''c'' ''d'' False 5] =
           ([n', sample 2 2 ''c'' ''d'' False 5],
            Inr (Reply 200 ''Note updated successfully'' n')) \<and>
     title n' = ''new'' \<and> content n' = ''b'' \<and> category n' = ''work'' \<and> tags n' = [''x''] \<and>
     isPinned n' = False \<and> isArchived n' = False \<and> color n' = ''#ffffff'' \<and>
     nid n' = 1 \<and> userId n' = 1 \<and> createdAt n' = 5 \<and> updatedAt n' = 9"
proof -
  let ?b = "emptyBody\<lparr>b_title := Some '' new '', b_tags := Some ['' x '', ''  '']\<rparr>"
  let ?db = "[sample 1 1 ''a'' ''b'' False 5, sample 2 2 ''c'' ''d'' False 5]"
  have valid: "updateNoteValidation ?b = [] \<and> schemaValid (sample 1 1 ''a'' ''b'' False 5)"
    by (simp add: updateNoteValidation_def optional_def titleChain_def tagsChain_def
        tagChain_def check_def trim_def isWhiteSpace_def schemaValid_fields categoryEnum_def
        isHexColor_def isHexDigit_def)
  have owned: "findOne 1 1 ?db = Some (sample 1 1 ''a'' ''b'' False 5)"
    by (simp add: findOne_def)
  from update_note_frame [OF owned, of ?b 9] obtain n' where
    s: "updateNoteValidation ?b = [] \<and> schemaValid (sample 1 1 ''a'' ''b'' False 5) \<longrightarrow>
        update_note 1 1 ?b 9 ?db =
          (map (\<lambda>m. if nid m = 1 then n' else m) ?db,
           Inr (Reply 200 ''Note updated successfully'' n')) \<and>
        title n' = (case b_title ?b of None \<Rightarrow> title (sample 1 1 ''a'' ''b'' False 5) | Some t \<Rightarrow> trim t) \<and>
        content n' = (case b_content ?b of None \<Rightarrow> content (sample 1 1 ''a'' ''b'' False 5) | Some c \<Rightarrow> trim c) \<and>
        category n' = (case b_category ?b of None \<Rightarrow> category (sample 1 1 ''a'' ''b'' False 5) | Some c \<Rightarrow> c) \<and>
        tags n' = (case b_tags ?b of None \<Rightarrow> tags (sample 1 1 ''a'' ''b'' False 5)
                   | Some ts \<Rightarrow> filter (\<lambda>t. t \<noteq> []) (map trim ts)) \<and>
        isPinned n' = (case b_isPinned ?b of None \<Rightarrow> isPinned (sample 1 1 ''a'' ''b'' False 5) | Some p \<Rightarrow> p) \<and>
        isArchived n' = (case b_isArchived ?b of None \<Rightarrow> isArchived (sample 1 1 ''a'' ''b'' False 5) | Some a \<Rightarrow> a) \<and>
        color n' = (case b_color ?b of None \<Rightarrow> color (sample 1 1 ''a'' ''b'' False 5) | Some c \<Rightarrow> c) \<and>
        updatedAt n' = 9"
    and k: "nid n' = nid (sample 1 1 ''a'' ''b'' False 5)"
      "userId n' = userId (sample 1 1 ''a'' ''b'' False 5)"
      "createdAt n' = createdAt (sample 1 1 ''a'' ''b'' False 5)"
    by (elim exE conjE)
  from mp [OF s valid] k show ?thesis
    by (intro exI [of _ n']) (simp add: trim_def isWhiteSpace_def)
qed

text \<open>
  C6 as stated (only the fields of the body change, every omitted field keeps its value)
  fails on \<open>updatedAt\<close>: a body with \<open>isPinned\<close> alone, sent at time 9 for a note last
  updated at time 5, leaves the note with \<open>updatedAt = 9\<close>.
\<close>

theorem update_restamps_updatedAt:
  "update_note 1 1 (emptyBody\<lparr>b_isPinned := Some True\<rparr>) 9 [sample 1 1 ''a'' ''b'' False 5] =
     ([(sample 1 1 ''a'' ''b'' False 5)\<lparr>isPinned := True, updatedAt := 9\<rparr>],
      Inr (Reply 200 ''Note updated successfully''
        ((sample 1 1 ''a'' ''b'' False 5)\<lparr>isPinned := True, updatedAt := 9\<rparr>))) \<and>
   updatedAt ((sample 1 1 ''a'' ''b'' False 5)\<lparr>isPinned := True, updatedAt := 9\<rparr>) \<noteq>
     updatedAt (sample 1 1 ''a'' ''b'' False 5)"
  by (simp add: update_note_def handleValidationErrors_def updateNoteValidation_def optional_def
      update_handler_def findOne_def sanitizeBody_def applyBody_def assign_def save_def
      preSave_def schemaValid_fields categoryEnum_def isHexColor_def isHexDigit_def Let_def)

section \<open>Creating a note\<close>

lemma trim_Nil: "trim [] = []"
  by (simp add: trim_def)

lemma create_note_valid:
  assumes "createNoteValidation b = []"
  shows "\<exists>t c g. b_title b = Some t \<and> b_content b = Some c \<and> b_category b = Some g \<and>
     create_note u i b now db =
       (db @ [\<lparr>nid = i, title = trim t, content = trim c, category = g,
               tags = (case b_tags b of None \<Rightarrow> []
                       | Some ts \<Rightarrow> filter (\<lambda>t. t \<noteq> []) (map trim ts)),
               isPinned = False, isArchived = False,
               color = (case b_color b of None \<Rightarrow> ''#ffffff'' | Some v \<Rightarrow> v),
               userId = u, createdAt = now, updatedAt = now\<rparr>],
        Inr (Reply 201 ''Note created successfully''
          \<lparr>nid = i, title = trim t, content = trim c, category = g,
           tags = (case b_tags b of None \<Rightarrow> []
                   | Some ts \<Rightarrow> filter (\<lambda>t. t \<noteq> []) (map trim ts)),
           isPinned = False, isArchived = False,
           color = (case b_color b of None \<Rightarrow> ''#ffffff'' | Some v \<Rightarrow> v),
           userId = u, createdAt = now, updatedAt = now\<rparr>))"
proof -
  from assms have
    t: "required (b_title b) titleChain = []" and
    c: "required (b_content b) contentChain = []" and
    g: "required (b_category b) categoryChain = []" and
    ts: "optional (b_tags b) tagChain = []" and
    co: "optional (b_color b) colorChain = []"
    by (simp_all add: createNoteValidation_def)
  from t obtain tv where tv: "b_title b = Some tv" "1 \<le> length (trim tv)" "length (trim tv) \<le> 200"
    by (cases "b_title b") (simp_all add: required_def titleChain_def check_Nil trim_Nil)
  from c obtain cv where cv: "b_content b = Some cv" "1 \<le> length (trim cv)" "length (trim cv) \<le> 10000"
    by (cases "b_content b") (simp_all add: required_def contentChain_def check_Nil trim_Nil)
  from g obtain gv where gv: "b_category b = Some gv" "List.member categoryEnum gv"
    by (cases "b_category b") (simp_all add: required_def categoryChain_def check_Nil categoryEnum_def)
  have tg: "list_all (\<lambda>t. length t \<le> 30)
      (case b_tags b of None \<Rightarrow> [] | Some ts \<Rightarrow> filter (\<lambda>t. t \<noteq> []) (map trim ts))"
    using ts stored_tags_short by (cases "b_tags b") (simp_all add: optional_def)
  have cl: "isHexColor (case b_color b of None \<Rightarrow> ''#ffffff'' | Some v \<Rightarrow> v)"
    using co by (cases "b_color b")
      (simp_all add: optional_def colorChain_def check_Nil isHexColor_def isHexDigit_def)
  have len: "Suc 0 \<le> length (trim tv)" "Suc 0 \<le> length (trim cv)"
    using tv cv by simp_all
  have new: "newNote u i now (sanitizeBody b) =
      Some \<lparr>nid = i, title = trim tv, content = trim cv, category = gv,
           tags = (case b_tags b of None \<Rightarrow> []
                   | Some ts \<Rightarrow> filter (\<lambda>t. t \<noteq> []) (map trim ts)),
           isPinned = False, isArchived = False,
           color = (case b_color b of None \<Rightarrow> ''#ffffff'' | Some v \<Rightarrow> v),
           userId = u, createdAt = now, updatedAt = now\<rparr>"
    using tv cv gv
    by (cases "b_tags b")
      (simp_all add: newNote_def sanitizeBody_def setTitle_def setContent_def setTags_def
        cleanTags_def trim_idem trim_o_trim map_trim_clean)
  show ?thesis
    using assms tv cv gv tg cl
    by (simp add: create_note_def handleValidationErrors_def create_handler_def new
        saveNew_def Let_def preSave_def schemaValid_fields len)
qed

lemma create_note_too_many:
  assumes "b_tags b = Some ts" and "10 < length ts"
  shows "create_note u i b now db = (db, Inl (ValidationError (createNoteValidation b)))"
    and "''Cannot have more than 10 tags'' \<in> set (createNoteValidation b)"
proof -
  show m: "''Cannot have more than 10 tags'' \<in> set (createNoteValidation b)"
    using assms by (simp add: createNoteValidation_def optional_def tagsChain_def check_def)
  then have "createNoteValidation b \<noteq> []"
    by auto
  then show "create_note u i b now db = (db, Inl (ValidationError (createNoteValidation b)))"
    by (simp add: create_note_def handleValidationErrors_def)
qed

lemma validation_without_tags:
  assumes "b_tags b = Some ts"
  shows "createNoteValidation b = [] \<longleftrightarrow>
     createNoteValidation (b\<lparr>b_tags := None\<rparr>) = [] \<and> length ts \<le> 10 \<and>
     (\<forall>t\<in>set ts. length (trim t) \<le> 30)"
  using assms by (auto simp: createNoteValidation_def optional_def tagsChain_Nil tagChain_Nil)

lemma count_clean:
  assumes "x \<noteq> []"
  shows "count_list (filter (\<lambda>t. t \<noteq> []) ys) x = count_list ys x"
  using assms by (induction ys) auto

text \<open>
  C8. Create with a \<open>tags\<close> array of more than 10 elements ends in a validation error that
  names the limit, and stores nothing. With exactly 10 tags, each at most 30 characters
  after trimming, and the other fields valid, Create succeeds. Whenever Create succeeds on
  a body with tags \<open>ts\<close>, the stored tags are the trimmed tags in their order without the
  empty ones: every stored tag is trimmed and not empty, and every non-empty trimmed tag
  is stored as many times as it was sent (no deduplication).
\<close>

theorem create_note_tags:
  "(b_tags b = Some ts \<and> 10 < length ts \<longrightarrow>
      (\<exists>errs. create_note u i b now db = (db, Inl (ValidationError errs)) \<and>
         ''Cannot have more than 10 tags'' \<in> set errs)) \<and>
   (b_tags b = Some ts \<and> length ts = 10 \<and> createNoteValidation (b\<lparr>b_tags := None\<rparr>) = [] \<and>
    (\<forall>t\<in>set ts. length (trim t) \<le> 30) \<longrightarrow>
      (\<exists>n. create_note u i b now db = (db @ [n], Inr (Reply 201 ''Note created successfully'' n)))) \<and>
   (b_tags b = Some ts \<and> createNoteValidation b = [] \<longrightarrow>
      (\<exists>n. create_note u i b now db = (db @ [n], Inr (Reply 201 ''Note created successfully'' n)) \<and>
         tags n = filter (\<lambda>t. t \<noteq> []) (map trim ts) \<and>
         (\<forall>t\<in>set (tags n). trim t = t \<and> t \<noteq> []) \<and>
         (\<forall>x. x \<noteq> [] \<longrightarrow> count_list (tags n) x = count_list (map trim ts) x)))"
proof (intro conjI impI)
  assume "b_tags b = Some ts \<and> 10 < length ts"
  then show "\<exists>errs. create_note u i b now db = (db, Inl (ValidationError errs)) \<and>
         ''Cannot have more than 10 tags'' \<in> set errs"
    using create_note_too_many(1) [of b ts u i now db] create_note_too_many(2) [of b ts] by blast
next
  assume a: "b_tags b = Some ts \<and> length ts = 10 \<and> createNoteValidation (b\<lparr>b_tags := None\<rparr>) = [] \<and>
    (\<forall>t\<in>set ts. length (trim t) \<le> 30)"
  then have "createNoteValidation b = []"
    using validation_without_tags [of b ts] by simp
  from create_note_valid [OF this, of u i now db]
  show "\<exists>n. create_note u i b now db = (db @ [n], Inr (Reply 201 ''Note created successfully'' n))"
    by blast
next
  assume a: "b_tags b = Some ts \<and> createNoteValidation b = []"
  then have v: "createNoteValidation b = []" and ts: "b_tags b = Some ts"
    by simp_all
  from create_note_valid [OF v, of u i now db] obtain n where
    n: "create_note u i b now db = (db @ [n], Inr (Reply 201 ''Note created successfully'' n))"
    and tn: "tags n = filter (\<lambda>t. t \<noteq> []) (map trim ts)"
    using ts by auto
  have "\<forall>t\<in>set (tags n). trim t = t \<and> t \<noteq> []"
    unfolding tn by (auto simp: trim_idem)
  moreover have "\<forall>x. x \<noteq> [] \<longrightarrow> count_list (tags n) x = count_list (map trim ts) x"
    unfolding tn by (simp add: count_clean)
  ultimately show "\<exists>n. create_note u i b now db =
        (db @ [n], Inr (Reply 201 ''Note created successfully'' n)) \<and>
      tags n = filter (\<lambda>t. t \<noteq> []) (map trim ts) \<and>
      (\<forall>t\<in>set (tags n). trim t = t \<and> t \<noteq> []) \<and>
      (\<forall>x. x \<noteq> [] \<longrightarrow> count_list (tags n) x = count_list (map trim ts) x)"
    using n tn by blast
qed


text \<open>Eleven tags are refused; ten tags, one blank and one repeated, store nine.\<close>

theorem create_note_tags_witness:
  "(\<exists>errs. create_note 1 7
       (emptyBody\<lparr>b_title := Some ''T'', b_content := Some ''C'', b_category := Some ''work'',
          b_tags := Some (replicate 11 ''x'')\<rparr>) 5 [] = ([], Inl (ValidationError errs)) \<and>
       ''Cannot have more than 10 tags'' \<in> set errs) \<and>
   (\<exists>n. create_note 1 7
       (emptyBody\<lparr>b_title := Some ''T'', b_content := Some ''C'', b_category := Some ''work'',
          b_tags := Some ['' a '', ''a'', ''  '', ''b'', ''c'', ''d'', ''e'', ''f'', ''g'', ''h'']\<rparr>) 5 [] =
         ([n], Inr (Reply 201 ''Note created successfully'' n)) \<and>
       tags n = [''a'', ''a'', ''b'', ''c'', ''d'', ''e'', ''f'', ''g'', ''h''])"
proof -
  let ?B = "emptyBody\<lparr>b_title := Some ''T'', b_content := Some ''C'', b_category := Some ''work''\<rparr>"
  let ?ts = "['' a '', ''a'', ''  '', ''b'', ''c'', ''d'', ''e'', ''f'', ''g'', ''h'']"
  have base: "createNoteValidation ?B = []"
    by (simp add: createNoteValidation_def required_def optional_def titleChain_def
        contentChain_def categoryChain_def categoryEnum_def check_def trim_def isWhiteSpace_def)
  have short: "\<forall>t\<in>set ?ts. length (trim t) \<le> 30"
    by (simp add: trim_def isWhiteSpace_def)
  have ten: "createNoteValidation (?B\<lparr>b_tags := Some ?ts\<rparr>) = []"
    using base short validation_without_tags [of "?B\<lparr>b_tags := Some ?ts\<rparr>" ?ts] by simp
  have 1: "\<exists>errs. create_note 1 7 (?B\<lparr>b_tags := Some (replicate 11 ''x'')\<rparr>) 5 [] =
        ([], Inl (ValidationError errs)) \<and> ''Cannot have more than 10 tags'' \<in> set errs"
    using create_note_tags [of "?B\<lparr>b_tags := Some (replicate 11 ''x'')\<rparr>" "replicate 11 ''x''" 1 7 5 "[]"]
    by simp
  have h: "b_tags (?B\<lparr>b_tags := Some ?ts\<rparr>) = Some ?ts \<and>
      createNoteValidation (?B\<lparr>b_tags := Some ?ts\<rparr>) = []"
    using ten by simp
  from mp [OF conjunct2 [OF conjunct2 [OF create_note_tags
          [of "?B\<lparr>b_tags := Some ?ts\<rparr>" ?ts 1 7 5 "[]"]]] h]
  obtain n where
    "create_note 1 7 (?B\<lparr>b_tags := Some ?ts\<rparr>) 5 [] =
       ([] @ [n], Inr (Reply 201 ''Note created successfully'' n))"
    "tags n = filter (\<lambda>t. t \<noteq> []) (map trim ?ts)"
    by (elim exE conjE)
  then have 2: "\<exists>n. create_note 1 7 (?B\<lparr>b_tags := Some ?ts\<rparr>) 5 [] =
        ([n], Inr (Reply 201 ''Note created successfully'' n)) \<and>
      tags n = filter (\<lambda>t. t \<noteq> []) (map trim ?ts)"
    by (intro exI [of _ n]) (simp only: append_Nil simp_thms)
  have 3: "filter (\<lambda>t. t \<noteq> []) (map trim ?ts) = [''a'', ''a'', ''b'', ''c'', ''d'', ''e'', ''f'', ''g'', ''h'']"
    by (simp add: trim_def isWhiteSpace_def)
  from 1 2 show ?thesis
    unfolding 3 by (intro conjI)
qed

section \<open>The listing and its count\<close>

lemma query_same: "findUserNotesQuery u (optionsOf q) = countQuery u q"
  by (simp add: findUserNotesQuery_def optionsOf_def countQuery_def)

lemma valid_query:
  assumes "queryValidation q = []"
  shows "1 \<le> pageOf q" and "1 \<le> limitOf q" and "limitOf q \<le> 100" and "0 \<le> skipOf q"
proof -
  from assms have p: "optional (rq_page q) (\<lambda>p. check (1 \<le> p) ''Page must be a positive integer'') = []"
    and l: "optional (rq_limit q) (\<lambda>l. check (1 \<le> l \<and> l \<le> 100) ''Limit must be between 1 and 100'') = []"
    by (simp_all add: queryValidation_def)
  from p show 1: "1 \<le> pageOf q"
    by (cases "rq_page q") (simp_all add: pageOf_def optional_def check_Nil)
  from l show 2: "1 \<le> limitOf q" and "limitOf q \<le> 100"
    by (cases "rq_limit q"; simp add: limitOf_def optional_def check_Nil)+
  from 1 2 show "0 \<le> skipOf q"
    by (simp add: skipOf_def)
qed

lemma list_notes_valid:
  assumes "queryValidation q = []"
  shows "list_notes hits u q db =
     Inr (Reply 200 ''Notes retrieved successfully''
       (take (nat (limitOf q)) (drop (nat ((pageOf q - 1) * limitOf q))
          (sortNotes (sortByOf q) (sortDirectionOf q)
             (filter (matchesQuery hits (countQuery u q)) db))),
        \<lparr>currentPage = pageOf q,
         totalPages = \<lceil>real (length (filter (matchesQuery hits (countQuery u q)) db)) /
                        real_of_int (limitOf q)\<rceil>,
         totalNotes = length (filter (matchesQuery hits (countQuery u q)) db),
         hasNextPage = (pageOf q < \<lceil>real (length (filter (matchesQuery hits (countQuery u q)) db)) /
                        real_of_int (limitOf q)\<rceil>),
         hasPrevPage = (pageOf q > 1)\<rparr>))"
proof -
  have opts: "o_limit (optionsOf q) = Some (limitOf q)" "o_skip (optionsOf q) = Some (skipOf q)"
    "o_sortBy (optionsOf q) = Some (sortByOf q)" "o_sortOrder (optionsOf q) = Some (sortDirectionOf q)"
    by (simp_all add: optionsOf_def)
  have "findUserNotes hits u (optionsOf q) db =
      Some (take (nat (limitOf q)) (drop (nat ((pageOf q - 1) * limitOf q))
          (sortNotes (sortByOf q) (sortDirectionOf q)
             (filter (matchesQuery hits (countQuery u q)) db))))"
    using valid_query [OF assms]
    by (simp add: findUserNotes_def opts query_same limitSkip_def)
      (simp add: skipOf_def)
  then show ?thesis
    using assms
    by (simp add: list_notes_def handleValidationErrors_def list_handler_def Let_def
        countDocuments_def totalPagesOf_def)
qed

lemma set_sortNotes: "set (sortNotes f d xs) = set xs"
  by (simp add: sortNotes_def Let_def)


lemma notesOf_matches:
  assumes "n \<in> set (notesOf (list_notes hits u q db))"
  shows "n \<in> set db \<and> matchesQuery hits (countQuery u q) n"
proof (cases "queryValidation q = []")
  case True
  with assms have "n \<in> set (sortNotes (sortByOf q) (sortDirectionOf q)
             (filter (matchesQuery hits (countQuery u q)) db))"
    by (auto simp: list_notes_valid notesOf_def dest: in_set_takeD in_set_dropD)
  then show ?thesis
    by (simp add: set_sortNotes)
next
  case False
  with assms show ?thesis
    by (simp add: list_notes_def handleValidationErrors_def notesOf_def)
qed

text \<open>
  C2. When a List request leaves \<open>isArchived\<close> out, the filter of the listing and the filter
  of the count both hold \<open>isArchived = false\<close>, and no returned note is archived; when the
  request has \<open>isArchived = true\<close>, every returned note is archived; in both cases every
  returned note is owned by the requesting user. A request that passes validation returns
  the page of the sorted matching notes.
\<close>

theorem list_archived_filter:
  "(rq_isArchived q = None \<longrightarrow>
      q_isArchived (findUserNotesQuery u (optionsOf q)) = False \<and>
      q_isArchived (countQuery u q) = False \<and>
      (\<forall>n\<in>set (notesOf (list_notes hits u q db)). \<not> isArchived n \<and> userId n = u)) \<and>
   (rq_isArchived q = Some ''true'' \<longrightarrow>
      (\<forall>n\<in>set (notesOf (list_notes hits u q db)). isArchived n \<and> userId n = u)) \<and>
   (queryValidation q = [] \<longrightarrow>
      notesOf (list_notes hits u q db) =
        take (nat (limitOf q)) (drop (nat ((pageOf q - 1) * limitOf q))
          (sortNotes (sortByOf q) (sortDirectionOf q)
             (filter (matchesQuery hits (countQuery u q)) db))))"
proof (intro conjI impI)
  assume a: "rq_isArchived q = None"
  then show "q_isArchived (findUserNotesQuery u (optionsOf q)) = False"
    and "q_isArchived (countQuery u q) = False"
    by (simp_all add: query_same countQuery_def isArchivedOf_def)
  show "\<forall>n\<in>set (notesOf (list_notes hits u q db)). \<not> isArchived n \<and> userId n = u"
  proof
    fix n assume "n \<in> set (notesOf (list_notes hits u q db))"
    from notesOf_matches [OF this] a show "\<not> isArchived n \<and> userId n = u"
      by (simp add: matchesQuery_def countQuery_def isArchivedOf_def)
  qed
next
  assume a: "rq_isArchived q = Some ''true''"
  show "\<forall>n\<in>set (notesOf (list_notes hits u q db)). isArchived n \<and> userId n = u"
  proof
    fix n assume "n \<in> set (notesOf (list_notes hits u q db))"
    from notesOf_matches [OF this] a show "isArchived n \<and> userId n = u"
      by (simp add: matchesQuery_def countQuery_def isArchivedOf_def)
  qed
next
  assume "queryValidation q = []"
  then show "notesOf (list_notes hits u q db) =
        take (nat (limitOf q)) (drop (nat ((pageOf q - 1) * limitOf q))
          (sortNotes (sortByOf q) (sortDirectionOf q)
             (filter (matchesQuery hits (countQuery u q)) db)))"
    by (simp add: list_notes_valid notesOf_def)
qed


text \<open>User 1 has a live and an archived note, user 2 an archived one.\<close>

theorem list_archived_filter_witness:
  "notesOf (list_notes wholeText 1 emptyQuery
     [sample 1 1 ''a'' ''b'' False 1, sample 2 1 ''c'' ''d'' True 2, sample 3 2 ''e'' ''f'' True 3]) =
     [sample 1 1 ''a'' ''b'' False 1] \<and>
   notesOf (list_notes wholeText 1 (emptyQuery\<lparr>rq_isArchived := Some ''true''\<rparr>)
     [sample 1 1 ''a'' ''b'' False 1, sample 2 1 ''c'' ''d'' True 2, sample 3 2 ''e'' ''f'' True 3]) =
     [sample 2 1 ''c'' ''d'' True 2]"
proof -
  let ?db = "[sample 1 1 ''a'' ''b'' False 1, sample 2 1 ''c'' ''d'' True 2, sample 3 2 ''e'' ''f'' True 3]"
  have v1: "queryValidation emptyQuery = []"
    by (simp add: queryValidation_def optional_def)
  have v2: "queryValidation (emptyQuery\<lparr>rq_isArchived := Some ''true''\<rparr>) = []"
    by (simp add: queryValidation_def optional_def check_def isBoolean_def)
  from list_archived_filter [of emptyQuery 1 wholeText ?db] v1
  have 1: "notesOf (list_notes wholeText 1 emptyQuery ?db) = [sample 1 1 ''a'' ''b'' False 1]"
    by (simp add: limitOf_def pageOf_def sortByOf_def sortDirectionOf_def sortOrderOf_def
        sortNotes_def matchesQuery_def countQuery_def isArchivedOf_def truthy_def)
  from list_archived_filter [of "emptyQuery\<lparr>rq_isArchived := Some ''true''\<rparr>" 1 wholeText ?db] v2
  have 2: "notesOf (list_notes wholeText 1 (emptyQuery\<lparr>rq_isArchived := Some ''true''\<rparr>) ?db) =
      [sample 2 1 ''c'' ''d'' True 2]"
    by (simp add: limitOf_def pageOf_def sortByOf_def sortDirectionOf_def sortOrderOf_def
        sortNotes_def matchesQuery_def countQuery_def isArchivedOf_def truthy_def)
  from 1 2 show ?thesis
    by (intro conjI)
qed



section \<open>Searching\<close>












section \<open>Statistics of a user\<close>

lemma count_ones: "sum_list (map (\<lambda>n. Suc 0) ms) = length ms"
  by (induction ms) auto

lemma count_pinned: "sum_list (map (\<lambda>n. if isPinned n then 1 else 0) ms) = length (filter isPinned ms)"
  by (induction ms) auto

lemma sizeFilter_category: "sizeFilter (map category ms) c = length (filter (\<lambda>n. category n = c) ms)"
  by (induction ms) (auto simp: sizeFilter_def)

lemma stats_when_call_returns:
  assumes "objectId u = Some u"
  shows "get_stats objectId u db =
     Inr (Reply 200 ''Statistics retrieved successfully''
       \<lparr>totalNotes = length (filter (\<lambda>n. userId n = u \<and> \<not> isArchived n) db),
        pinnedNotes = length (filter (\<lambda>n. userId n = u \<and> \<not> isArchived n \<and> isPinned n) db),
        categories = map (\<lambda>c. (c, length (filter (\<lambda>n. userId n = u \<and> \<not> isArchived n \<and> category n = c) db)))
          [''personal'', ''work'', ''creative'', ''study'']\<rparr>)"
proof (cases "matchStage u db = []")
  case True
  then have "filter (\<lambda>n. userId n = u \<and> \<not> isArchived n) db = []"
    by (simp add: matchStage_def)
  then have none: "\<forall>n\<in>set db. \<not> (userId n = u \<and> \<not> isArchived n)"
    by (simp add: filter_empty_conv)
  then have z: "filter (\<lambda>n. userId n = u \<and> \<not> isArchived n \<and> P n) db = []" for P
    by (auto simp: filter_empty_conv)
  from True none assms show ?thesis
    by (simp add: get_stats_def getUserStats_def groupStage_def z filter_empty_conv)
next
  case False
  have f: "filter P (matchStage u db) = filter (\<lambda>n. userId n = u \<and> \<not> isArchived n \<and> P n) db" for P
    by (simp add: matchStage_def conj_commute conj_left_commute)
  have m: "length (matchStage u db) = length (filter (\<lambda>n. userId n = u \<and> \<not> isArchived n) db)"
    by (simp add: matchStage_def)
  from False assms show ?thesis
    by (simp add: get_stats_def getUserStats_def groupStage_def projectStage_def count_ones
        count_pinned sizeFilter_category f m)
qed

text \<open>
  With the function constructor the route gives what the specification describes: the
  counts over the live notes of the user, the four keys, and zeros for a user without
  live notes.
\<close>

lemma stats_with_function_constructor:
  "get_stats functionObjectId 1
     [sample 1 1 ''a'' ''b'' False 1, (sample 2 1 ''c'' ''d'' False 2)\<lparr>isPinned := True, category := ''study''\<rparr>,
      sample 3 1 ''e'' ''f'' True 3, sample 4 2 ''g'' ''h'' False 4] =
     Inr (Reply 200 ''Statistics retrieved successfully''
       \<lparr>totalNotes = 2, pinnedNotes = 1,
        categories = [(''personal'', 0), (''work'', 1), (''creative'', 0), (''study'', 1)]\<rparr>)"
  "get_stats functionObjectId 3
     [sample 1 1 ''a'' ''b'' False 1, (sample 2 1 ''c'' ''d'' False 2)\<lparr>isPinned := True, category := ''study''\<rparr>,
      sample 3 1 ''e'' ''f'' True 3, sample 4 2 ''g'' ''h'' False 4] =
     Inr (Reply 200 ''Statistics retrieved successfully''
       \<lparr>totalNotes = 0, pinnedNotes = 0,
        categories = [(''personal'', 0), (''work'', 0), (''creative'', 0), (''study'', 0)]\<rparr>)"
  by (simp_all add: stats_when_call_returns functionObjectId_def)

lemma stats_when_call_throws:
  assumes "objectId u = None"
  shows "get_stats objectId u db =
     Inl (ErrorResponse 500 ''Failed to retrieve statistics''
       ''Unable to fetch statistics. Please try again.'')"
  using assms by (simp add: get_stats_def getUserStats_def)

text \<open>
  C4. The statistics route gives the counts the claim describes only where the call
  \<^verbatim>\<open>mongoose.Types.ObjectId(userId)\<close> returns. Where \<^verbatim>\<open>ObjectId\<close> is a class, the call
  without \<^verbatim>\<open>new\<close> throws for every user, whatever the collection holds, and the route
  answers 500 "Failed to retrieve statistics" in place of the statistics; so it does for
  user 1, who owns one live note.
\<close>

theorem stats_call_without_new:
  "get_stats classObjectId u db =
     Inl (ErrorResponse 500 ''Failed to retrieve statistics''
       ''Unable to fetch statistics. Please try again.'') \<and>
   get_stats classObjectId 1 [sample 1 1 ''a'' ''b'' False 1] =
     Inl (ErrorResponse 500 ''Failed to retrieve statistics''
       ''Unable to fetch statistics. Please try again.'')"
  by (simp add: stats_when_call_throws classObjectId_def)

section \<open>Logging in and asking for a password reset\<close>

lemma findByEmail_None_iff:
  "findByEmail users e = None \<longleftrightarrow> \<not> (\<exists>x\<in>set users. u_email x = toLowerCase e)"
  by (auto simp: findByEmail_def find_None_iff)

text \<open>
  C5. A Login for an email that no user is stored under (after lowercasing) fails with
  "Invalid credentials"; so does a Login for an active user whose password does not
  verify, with the very same response. A Login for a user whose \<open>isActive\<close> flag is false
  fails with "Account deactivated" whatever the password and whatever its verification
  gives: the flag is read once the user is found and before the password is compared. No
  failed Login changes the users.
\<close>

theorem login_failures:
  "(findByEmail users email = None \<longleftrightarrow> \<not> (\<exists>x\<in>set users. u_email x = toLowerCase email)) \<and>
   (findByEmail users email = None \<longrightarrow>
      login M email password now users =
        (users, Inl (ErrorResponse 400 ''Invalid credentials'' ''Invalid email or password.''))) \<and>
   (\<forall>x. findByEmail users email = Some x \<and> u_isActive x \<and> \<not> comparePassword M x password \<longrightarrow>
      login M email password now users =
        (users, Inl (ErrorResponse 400 ''Invalid credentials'' ''Invalid email or password.''))) \<and>
   (\<forall>x. findByEmail users email = Some x \<and> \<not> u_isActive x \<longrightarrow>
      login M email password now users =
        (users, Inl (ErrorResponse 400 ''Account deactivated''
           ''Your account has been deactivated. Please contact support.'')) \<and>
      login M email password now users = login M' email password' now' users)"
proof (intro conjI allI impI)
  show "findByEmail users email = None \<longleftrightarrow> \<not> (\<exists>x\<in>set users. u_email x = toLowerCase email)"
    by (rule findByEmail_None_iff)
next
  assume "findByEmail users email = None"
  then show "login M email password now users =
        (users, Inl (ErrorResponse 400 ''Invalid credentials'' ''Invalid email or password.''))"
    by (simp add: login_def)
next
  fix x assume "findByEmail users email = Some x \<and> u_isActive x \<and> \<not> comparePassword M x password"
  then show "login M email password now users =
        (users, Inl (ErrorResponse 400 ''Invalid credentials'' ''Invalid email or password.''))"
    by (simp add: login_def)
next
  fix x assume a: "findByEmail users email = Some x \<and> \<not> u_isActive x"
  then show "login M email password now users =
        (users, Inl (ErrorResponse 400 ''Account deactivated''
           ''Your account has been deactivated. Please contact support.''))"
    by (simp add: login_def)
  from a show "login M email password now users = login M' email password' now' users"
    by (simp add: login_def)
qed

text \<open>
  An unknown address and a wrong password for Ada give the same response; Bob, who is
  deactivated, gets the other one with his right password and with a wrong one.
\<close>

theorem login_failures_witness:
  "login sampleModel ''nobody@x.y'' ''Secret1'' 9
     [sampleUser 1 ''ada@x.y'' ''Secret1'' True, sampleUser 2 ''bob@x.y'' ''Secret2'' False] =
     ([sampleUser 1 ''ada@x.y'' ''Secret1'' True, sampleUser 2 ''bob@x.y'' ''Secret2'' False],
      Inl (ErrorResponse 400 ''Invalid credentials'' ''Invalid email or password.'')) \<and>
   login sampleModel ''Ada@x.y'' ''wrong'' 9
     [sampleUser 1 ''ada@x.y'' ''Secret1'' True, sampleUser 2 ''bob@x.y'' ''Secret2'' False] =
     ([sampleUser 1 ''ada@x.y'' ''Secret1'' True, sampleUser 2 ''bob@x.y'' ''Secret2'' False],
      Inl (ErrorResponse 400 ''Invalid credentials'' ''Invalid email or password.'')) \<and>
   login sampleModel ''bob@x.y'' ''Secret2'' 9
     [sampleUser 1 ''ada@x.y'' ''Secret1'' True, sampleUser 2 ''bob@x.y'' ''Secret2'' False] =
     ([sampleUser 1 ''ada@x.y'' ''Secret1'' True, sampleUser 2 ''bob@x.y'' ''Secret2'' False],
      Inl (ErrorResponse 400 ''Account deactivated''
         ''Your account has been deactivated. Please contact support.'')) \<and>
   login sampleModel ''bob@x.y'' ''Secret2'' 9
     [sampleUser 1 ''ada@x.y'' ''Secret1'' True, sampleUser 2 ''bob@x.y'' ''Secret2'' False] =
   login sampleModel ''bob@x.y'' ''wrong'' 9
     [sampleUser 1 ''ada@x.y'' ''Secret1'' True, sampleUser 2 ''bob@x.y'' ''Secret2'' False]"
proof -
  let ?users = "[sampleUser 1 ''ada@x.y'' ''Secret1'' True, sampleUser 2 ''bob@x.y'' ''Secret2'' False]"
  have nobody: "findByEmail ?users ''nobody@x.y'' = None"
    by (simp add: findByEmail_def toLowerCase_def)
  have ada: "findByEmail ?users ''Ada@x.y'' = Some (sampleUser 1 ''ada@x.y'' ''Secret1'' True)"
    by (simp add: findByEmail_def toLowerCase_def)
  have bob: "findByEmail ?users ''bob@x.y'' = Some (sampleUser 2 ''bob@x.y'' ''Secret2'' False)"
    by (simp add: findByEmail_def toLowerCase_def)
  have wrong: "u_isActive (sampleUser 1 ''ada@x.y'' ''Secret1'' True) \<and>
      \<not> comparePassword sampleModel (sampleUser 1 ''ada@x.y'' ''Secret1'' True) ''wrong''"
    by (simp add: sampleModel_def)
  have inactive: "\<not> u_isActive (sampleUser 2 ''bob@x.y'' ''Secret2'' False)"
    by simp
  from login_failures [of ?users "''nobody@x.y''" sampleModel "''Secret1''" 9] nobody
  have 1: "login sampleModel ''nobody@x.y'' ''Secret1'' 9 ?users =
      (?users, Inl (ErrorResponse 400 ''Invalid credentials'' ''Invalid email or password.''))"
    by blast
  from login_failures [of ?users "''Ada@x.y''" sampleModel "''wrong''" 9] ada wrong
  have 2: "login sampleModel ''Ada@x.y'' ''wrong'' 9 ?users =
      (?users, Inl (ErrorResponse 400 ''Invalid credentials'' ''Invalid email or password.''))"
    by blast
  from login_failures [of ?users "''bob@x.y''" sampleModel "''Secret2''" 9 sampleModel "''wrong''" 9]
    bob inactive
  have 3: "login sampleModel ''bob@x.y'' ''Secret2'' 9 ?users =
      (?users, Inl (ErrorResponse 400 ''Account deactivated''
         ''Your account has been deactivated. Please contact support.'')) \<and>
      login sampleModel ''bob@x.y'' ''Secret2'' 9 ?users = login sampleModel ''bob@x.y'' ''wrong'' 9 ?users"
    by blast
  from 1 2 3 show ?thesis
    by blast
qed

text \<open>
  C7. ForgotPassword answers with the same success message whether or not a user is stored
  under the email, and leaves the users as they were; only the console line differs.
\<close>

theorem forgot_password_uniform:
  "fst (forgot_password email users) = users \<and>
   fst (snd (forgot_password email users)) =
     Reply 200 ''If an account with that email exists, a password reset link has been sent.'' () \<and>
   fst (snd (forgot_password email users)) = fst (snd (forgot_password email users'))"
  by (simp add: forgot_password_def)

text \<open>The same response for Ada's address and for an unknown one.\<close>

theorem forgot_password_uniform_witness:
  "forgot_password ''ada@x.y'' [sampleUser 1 ''ada@x.y'' ''Secret1'' True] =
     ([sampleUser 1 ''ada@x.y'' ''Secret1'' True],
      Reply 200 ''If an account with that email exists, a password reset link has been sent.'' (),
      [''Password reset requested for user: ada@x.y'']) \<and>
   forgot_password ''nobody@x.y'' [sampleUser 1 ''ada@x.y'' ''Secret1'' True] =
     ([sampleUser 1 ''ada@x.y'' ''Secret1'' True],
      Reply 200 ''If an account with that email exists, a password reset link has been sent.'' (),
      [])"
  using forgot_password_uniform [of "''ada@x.y''" "[sampleUser 1 ''ada@x.y'' ''Secret1'' True]"]
    forgot_password_uniform [of "''nobody@x.y''" "[sampleUser 1 ''ada@x.y'' ''Secret1'' True]"]
  by (simp add: forgot_password_def findByEmail_def toLowerCase_def)

end
